theory Spec2Isabelle
  imports Complex_Main "HOL-Library.Multiset" "HOL-Library.List_Lexorder" "HOL-Library.Char_ord"
begin

section \<open>Errors (package errors)\<close>

text \<open>
  An \<open>APIError\<close> is the structured error of the source: a code, a message and the
  HTTP status it maps to. The Go \<open>error\<close> interface is the datatype \<open>err\<close>:
  an API error, the sentinel \<open>ErrNoDriversAvailable\<close>, or an error handed back by the
  database driver or the cache client.
\<close>

record APIError =
  Code :: string
  Message :: string
  StatusCode :: nat

datatype err = ApiErr APIError | ErrNoDriversAvailable | ErrDatabase | ErrCache

definition NewAPIError :: "string \<Rightarrow> string \<Rightarrow> nat \<Rightarrow> APIError" where
  "NewAPIError c m s = \<lparr>Code = c, Message = m, StatusCode = s\<rparr>"

definition NotFound :: "string \<Rightarrow> APIError" where
  "NotFound resource = NewAPIError ''not_found'' (resource @ '' not found'') 404"

definition BadRequest :: "string \<Rightarrow> APIError" where
  "BadRequest message = NewAPIError ''bad_request'' message 400"

definition Unauthorized :: "string \<Rightarrow> APIError" where
  "Unauthorized message = NewAPIError ''unauthorized'' message 401"

definition RideAlreadyAssigned :: APIError where
  "RideAlreadyAssigned =
     NewAPIError ''ride_already_assigned'' ''this ride has been assigned to another driver'' 409"

definition OfferExpired :: APIError where
  "OfferExpired = NewAPIError ''offer_expired'' ''this ride offer has expired'' 410"

definition InvalidTransition :: "string \<Rightarrow> string \<Rightarrow> APIError" where
  "InvalidTransition from to =
     NewAPIError ''invalid_transition'' (''cannot transition from '' @ from @ '' to '' @ to) 400"

definition UserHasActiveRide :: APIError where
  "UserHasActiveRide = NewAPIError ''active_ride_exists'' ''you already have an active ride'' 409"

section \<open>Models (package models)\<close>

text \<open>Timestamps and durations are counted in nanoseconds, as \<open>time.Duration\<close> is.\<close>

type_synonym time = int

definition Second :: int where
  "Second = 1000000000"

definition Hour :: int where
  "Hour = 3600 * Second"

definition RideStatusPending :: string where "RideStatusPending = ''pending''"
definition RideStatusMatching :: string where "RideStatusMatching = ''matching''"
definition RideStatusDriverAssigned :: string where "RideStatusDriverAssigned = ''driver_assigned''"
definition RideStatusDriverArrived :: string where "RideStatusDriverArrived = ''driver_arrived''"
definition RideStatusInProgress :: string where "RideStatusInProgress = ''in_progress''"
definition RideStatusCompleted :: string where "RideStatusCompleted = ''completed''"
definition RideStatusCancelled :: string where "RideStatusCancelled = ''cancelled''"

definition OfferStatusPending :: string where "OfferStatusPending = ''pending''"
definition OfferStatusAccepted :: string where "OfferStatusAccepted = ''accepted''"
definition OfferStatusDeclined :: string where "OfferStatusDeclined = ''declined''"
definition OfferStatusExpired :: string where "OfferStatusExpired = ''expired''"

definition TripStatusStarted :: string where "TripStatusStarted = ''started''"
definition TripStatusPaused :: string where "TripStatusPaused = ''paused''"
definition TripStatusCompleted :: string where "TripStatusCompleted = ''completed''"
definition TripStatusCancelled :: string where "TripStatusCancelled = ''cancelled''"

definition DriverStatusOffline :: string where "DriverStatusOffline = ''offline''"
definition DriverStatusOnline :: string where "DriverStatusOnline = ''online''"
definition DriverStatusBusy :: string where "DriverStatusBusy = ''busy''"

definition VehicleTypeAuto :: string where "VehicleTypeAuto = ''auto''"
definition VehicleTypeMini :: string where "VehicleTypeMini = ''mini''"
definition VehicleTypeSedan :: string where "VehicleTypeSedan = ''sedan''"
definition VehicleTypeSUV :: string where "VehicleTypeSUV = ''suv''"

record FareBreakdown =
  BaseFare :: real
  DistanceFare :: real
  TimeFare :: real
  SurgeAmount :: real
  Total :: real

section \<open>Pricing (pricingService)\<close>

record FareConfig =
  cfg_BaseFare :: real
  cfg_PerKmRate :: real
  cfg_PerMinRate :: real
  cfg_MinFare :: real
  cfg_CancellationFee :: real

definition fareConfigs :: "string \<rightharpoonup> FareConfig" where
  "fareConfigs =
     [VehicleTypeAuto \<mapsto> \<lparr>cfg_BaseFare = 25, cfg_PerKmRate = 12, cfg_PerMinRate = 1,
                          cfg_MinFare = 30, cfg_CancellationFee = 25\<rparr>,
      VehicleTypeMini \<mapsto> \<lparr>cfg_BaseFare = 40, cfg_PerKmRate = 14, cfg_PerMinRate = 12 / 10,
                          cfg_MinFare = 50, cfg_CancellationFee = 40\<rparr>,
      VehicleTypeSedan \<mapsto> \<lparr>cfg_BaseFare = 50, cfg_PerKmRate = 17, cfg_PerMinRate = 15 / 10,
                           cfg_MinFare = 80, cfg_CancellationFee = 50\<rparr>,
      VehicleTypeSUV \<mapsto> \<lparr>cfg_BaseFare = 80, cfg_PerKmRate = 22, cfg_PerMinRate = 2,
                         cfg_MinFare = 120, cfg_CancellationFee = 80\<rparr>]"

text \<open>
  \<open>float64\<close> values are modelled as real numbers. \<open>math.Round\<close> rounds half away
  from zero; \<open>round(f)\<close> of the source is \<open>math.Round(f*100)/100\<close>.
\<close>

definition math_Round :: "real \<Rightarrow> real" where
  "math_Round x = (if x < 0 then - of_int \<lfloor>- x + 1 / 2\<rfloor> else of_int \<lfloor>x + 1 / 2\<rfloor>)"

definition round_f :: "real \<Rightarrow> real" where
  "round_f f = math_Round (f * 100) / 100"

definition calculateFare :: "string \<Rightarrow> real \<Rightarrow> int \<Rightarrow> real \<Rightarrow> FareBreakdown" where
  "calculateFare vehicleType distanceKm durationMins surgeMultiplier =
     (let config = (case fareConfigs vehicleType of
                      Some c \<Rightarrow> c
                    | None \<Rightarrow> (case fareConfigs VehicleTypeSedan of
                                 Some c \<Rightarrow> c
                               | None \<Rightarrow> \<lparr>cfg_BaseFare = 0, cfg_PerKmRate = 0, cfg_PerMinRate = 0,
                                           cfg_MinFare = 0, cfg_CancellationFee = 0\<rparr>));
          baseFare = cfg_BaseFare config;
          distanceFare = distanceKm * cfg_PerKmRate config;
          timeFare = of_int durationMins * cfg_PerMinRate config;
          subtotal = baseFare + distanceFare + timeFare;
          surgeAmount = subtotal * (surgeMultiplier - 1);
          total = subtotal + surgeAmount
      in if total < cfg_MinFare config
         then \<lparr>BaseFare = round_f baseFare, DistanceFare = round_f distanceFare,
               TimeFare = round_f timeFare, SurgeAmount = round_f 0,
               Total = round_f (cfg_MinFare config)\<rparr>
         else \<lparr>BaseFare = round_f baseFare, DistanceFare = round_f distanceFare,
               TimeFare = round_f timeFare, SurgeAmount = round_f surgeAmount,
               Total = round_f total\<rparr>)"

definition CalculateEstimatedFare :: "string \<Rightarrow> real \<Rightarrow> int \<Rightarrow> real \<Rightarrow> FareBreakdown" where
  "CalculateEstimatedFare = calculateFare"

definition CalculateActualFare :: "string \<Rightarrow> real \<Rightarrow> int \<Rightarrow> real \<Rightarrow> FareBreakdown" where
  "CalculateActualFare = calculateFare"

definition CalculateSurge :: "int \<Rightarrow> int \<Rightarrow> real" where
  "CalculateSurge demandCount supplyCount =
     (if supplyCount = 0 then 2
      else let ratio = real_of_int demandCount / real_of_int supplyCount
           in if ratio < 1 then 1
              else if ratio < 15 / 10 then 12 / 10
              else if ratio < 2 then 15 / 10
              else if ratio < 3 then 18 / 10
              else 2)"

text \<open>\<open>math.Atan2(y, x)\<close> on finite arguments.\<close>

definition math_Atan2 :: "real \<Rightarrow> real \<Rightarrow> real" where
  "math_Atan2 y x =
     (if 0 < x then arctan (y / x)
      else if x < 0 \<and> 0 \<le> y then arctan (y / x) + pi
      else if x < 0 \<and> y < 0 then arctan (y / x) - pi
      else if 0 < y then pi / 2
      else if y < 0 then - pi / 2
      else 0)"

definition haversineDistance :: "real \<Rightarrow> real \<Rightarrow> real \<Rightarrow> real \<Rightarrow> real" where
  "haversineDistance lat1 lng1 lat2 lng2 =
     (let earthRadius = 6371;
          lat1Rad = lat1 * pi / 180;
          lat2Rad = lat2 * pi / 180;
          deltaLat = (lat2 - lat1) * pi / 180;
          deltaLng = (lng2 - lng1) * pi / 180;
          a = sin (deltaLat / 2) * sin (deltaLat / 2)
              + cos lat1Rad * cos lat2Rad * sin (deltaLng / 2) * sin (deltaLng / 2);
          c = 2 * math_Atan2 (sqrt a) (sqrt (1 - a))
      in earthRadius * c)"

definition EstimateDistance :: "real \<Rightarrow> real \<Rightarrow> real \<Rightarrow> real \<Rightarrow> real" where
  "EstimateDistance pickupLat pickupLng dropoffLat dropoffLng =
     round_f (haversineDistance pickupLat pickupLng dropoffLat dropoffLng * (13 / 10))"

definition EstimateDuration :: "real \<Rightarrow> int" where
  "EstimateDuration distanceKm =
     (let durationHours = distanceKm / 25;
          durationMins = \<lceil>durationHours * 60\<rceil>
      in if durationMins < 5 then 5 else durationMins)"





record Location =
  Lat :: real
  Lng :: real
  Address :: string

record User =
  User_ID :: string
  User_Phone :: string
  User_Name :: string
  User_Email :: "string option"
  User_Rating :: real
  User_CreatedAt :: time
  User_UpdatedAt :: time

record Driver =
  Driver_ID :: string
  Driver_Phone :: string
  Driver_Name :: string
  Driver_Email :: "string option"
  Driver_LicenseNumber :: string
  Driver_VehicleType :: string
  Driver_VehicleNumber :: string
  Driver_Status :: string
  Driver_Rating :: real
  Driver_TotalTrips :: int
  Driver_CurrentLat :: "real option"
  Driver_CurrentLng :: "real option"
  Driver_CreatedAt :: time
  Driver_UpdatedAt :: time

record Ride =
  Ride_ID :: string
  Ride_UserID :: string
  Ride_DriverID :: "string option"
  Ride_PickupLat :: real
  Ride_PickupLng :: real
  Ride_PickupAddress :: "string option"
  Ride_DropoffLat :: real
  Ride_DropoffLng :: real
  Ride_DropoffAddress :: "string option"
  Ride_VehicleType :: string
  Ride_Status :: string
  Ride_EstimatedFare :: "real option"
  Ride_SurgeMultiplier :: real
  Ride_EstimatedDistanceKm :: "real option"
  Ride_EstimatedDurationMin :: "int option"
  Ride_PaymentMethod :: string
  Ride_IdempotencyKey :: "string option"
  Ride_CancelledBy :: "string option"
  Ride_CancellationReason :: "string option"
  Ride_CreatedAt :: time
  Ride_UpdatedAt :: time

record CreateRideRequest =
  Req_UserID :: string
  Req_Pickup :: Location
  Req_Dropoff :: Location
  Req_VehicleType :: string
  Req_PaymentMethod :: string

record CancelRideRequest =
  Cancel_Reason :: string
  Cancel_CancelledBy :: string

record RideOffer =
  Offer_ID :: string
  Offer_RideID :: string
  Offer_DriverID :: string
  Offer_Status :: string
  Offer_OfferedAt :: time
  Offer_RespondedAt :: "time option"
  Offer_ExpiresAt :: time

record AcceptRideRequest =
  Accept_RideID :: string
  Accept_OfferID :: string

record Trip =
  Trip_ID :: string
  Trip_RideID :: string
  Trip_DriverID :: string
  Trip_UserID :: string
  Trip_Status :: string
  Trip_StartTime :: "time option"
  Trip_EndTime :: "time option"
  Trip_PauseDurationSecs :: int
  Trip_ActualDistanceKm :: "real option"
  Trip_ActualDurationMin :: "int option"
  Trip_RoutePolyline :: "string option"
  Trip_BaseFare :: "real option"
  Trip_DistanceFare :: "real option"
  Trip_TimeFare :: "real option"
  Trip_SurgeAmount :: "real option"
  Trip_TotalFare :: "real option"
  Trip_CreatedAt :: time
  Trip_UpdatedAt :: time

definition ValidRideTransitions :: "string \<rightharpoonup> string list" where
  "ValidRideTransitions =
     [RideStatusPending \<mapsto> [RideStatusMatching, RideStatusCancelled],
      RideStatusMatching \<mapsto> [RideStatusDriverAssigned, RideStatusCancelled],
      RideStatusDriverAssigned \<mapsto> [RideStatusDriverArrived, RideStatusCancelled],
      RideStatusDriverArrived \<mapsto> [RideStatusInProgress, RideStatusCancelled],
      RideStatusInProgress \<mapsto> [RideStatusCompleted, RideStatusCancelled],
      RideStatusCompleted \<mapsto> [],
      RideStatusCancelled \<mapsto> []]"

definition CanTransitionTo :: "Ride \<Rightarrow> string \<Rightarrow> bool" where
  "CanTransitionTo r newStatus =
     (case ValidRideTransitions (Ride_Status r) of
        None \<Rightarrow> False
      | Some validNextStates \<Rightarrow> newStatus \<in> set validNextStates)"

text \<open>\<open>IsExpired\<close> reads the clock; the reading is the argument \<open>now\<close>.\<close>

definition IsExpired :: "time \<Rightarrow> RideOffer \<Rightarrow> bool" where
  "IsExpired now offer = (now > Offer_ExpiresAt offer)"

section \<open>The durable store (package repository)\<close>

text \<open>
  A table is the list of its rows. \<open>SELECT ... WHERE\<close> with \<open>GetContext\<close> yields the
  first matching row, \<open>UPDATE ... WHERE\<close> rewrites every matching row, and an
  \<open>INSERT\<close> fails when it breaks a constraint of the schema
  (\<open>001_initial_schema.up.sql\<close>): a primary key, a \<open>UNIQUE\<close> column, or a foreign key.

  Every call to the database or to the cache may also fail for reasons outside the
  program (a lost connection, a timeout). The oracle \<open>fl\<close> says which calls do: it maps
  the name of a call site to \<open>True\<close> when that call returns an error.
\<close>

record DB =
  users :: "User list"
  drivers :: "Driver list"
  rides :: "Ride list"
  trips :: "Trip list"
  ride_offers :: "RideOffer list"

type_synonym faults = "string \<Rightarrow> bool"

definition no_faults :: faults where
  "no_faults = (\<lambda>_. False)"

definition userRepo_GetByID :: "faults \<Rightarrow> DB \<Rightarrow> string \<Rightarrow> err + User option" where
  "userRepo_GetByID fl db ident =
     (if fl ''userRepo.GetByID'' then Inl ErrDatabase
      else Inr (find (\<lambda>u. User_ID u = ident) (users db)))"

definition rideRepo_Create :: "faults \<Rightarrow> string \<Rightarrow> time \<Rightarrow> DB \<Rightarrow> Ride \<Rightarrow> Ride \<times> (err + DB)" where
  "rideRepo_Create fl uuid now db ride =
     (let ride1 = (if Ride_ID ride = [] then ride\<lparr>Ride_ID := uuid\<rparr> else ride);
          ride2 = ride1\<lparr>Ride_CreatedAt := now, Ride_UpdatedAt := now,
                        Ride_Status := RideStatusPending, Ride_SurgeMultiplier := 1\<rparr>
      in if fl ''rideRepo.Create''
            \<or> Ride_ID ride2 \<in> set (map Ride_ID (rides db))
            \<or> (Ride_IdempotencyKey ride2 \<noteq> None
                \<and> Ride_IdempotencyKey ride2 \<in> set (map Ride_IdempotencyKey (rides db)))
            \<or> Ride_UserID ride2 \<notin> set (map User_ID (users db))
         then (ride2, Inl ErrDatabase)
         else (ride2, Inr (db\<lparr>rides := rides db @ [ride2]\<rparr>)))"

definition rideRepo_GetByID :: "faults \<Rightarrow> DB \<Rightarrow> string \<Rightarrow> err + Ride option" where
  "rideRepo_GetByID fl db ident =
     (if fl ''rideRepo.GetByID'' then Inl ErrDatabase
      else Inr (find (\<lambda>r. Ride_ID r = ident) (rides db)))"

definition rideRepo_GetByIdempotencyKey :: "faults \<Rightarrow> DB \<Rightarrow> string \<Rightarrow> err + Ride option" where
  "rideRepo_GetByIdempotencyKey fl db k =
     (if fl ''rideRepo.GetByIdempotencyKey'' then Inl ErrDatabase
      else Inr (find (\<lambda>r. Ride_IdempotencyKey r = Some k) (rides db)))"

definition rideRepo_UpdateStatus :: "faults \<Rightarrow> time \<Rightarrow> DB \<Rightarrow> string \<Rightarrow> string \<Rightarrow> err + DB" where
  "rideRepo_UpdateStatus fl now db ident status =
     (if fl ''rideRepo.UpdateStatus'' then Inl ErrDatabase
      else Inr (db\<lparr>rides :=
                  map (\<lambda>r. if Ride_ID r = ident
                            then r\<lparr>Ride_Status := status, Ride_UpdatedAt := now\<rparr> else r)
                      (rides db)\<rparr>))"

definition rideRepo_Cancel :: "faults \<Rightarrow> time \<Rightarrow> DB \<Rightarrow> string \<Rightarrow> string \<Rightarrow> string \<Rightarrow> err + DB" where
  "rideRepo_Cancel fl now db ident cancelledBy reason =
     (if fl ''rideRepo.Cancel'' then Inl ErrDatabase
      else Inr (db\<lparr>rides :=
                  map (\<lambda>r. if Ride_ID r = ident
                            then r\<lparr>Ride_Status := RideStatusCancelled,
                                   Ride_CancelledBy := Some cancelledBy,
                                   Ride_CancellationReason := Some reason,
                                   Ride_UpdatedAt := now\<rparr>
                            else r)
                      (rides db)\<rparr>))"

text \<open>
  \<open>ORDER BY created_at DESC LIMIT 1\<close>: the most recently created matching row.
\<close>

fun latest_ride :: "Ride list \<Rightarrow> Ride option" where
  "latest_ride [] = None"
| "latest_ride (r # rs) =
     (case latest_ride rs of
        None \<Rightarrow> Some r
      | Some r' \<Rightarrow> if Ride_CreatedAt r' > Ride_CreatedAt r then Some r' else Some r)"

definition rideRepo_GetActiveRideByUserID :: "faults \<Rightarrow> DB \<Rightarrow> string \<Rightarrow> err + Ride option" where
  "rideRepo_GetActiveRideByUserID fl db userID =
     (if fl ''rideRepo.GetActiveRideByUserID'' then Inl ErrDatabase
      else Inr (latest_ride
                  (filter (\<lambda>r. Ride_UserID r = userID
                                \<and> Ride_Status r \<notin> {RideStatusCompleted, RideStatusCancelled})
                          (rides db))))"

definition driverRepo_UpdateStatus :: "faults \<Rightarrow> time \<Rightarrow> DB \<Rightarrow> string \<Rightarrow> string \<Rightarrow> err + DB" where
  "driverRepo_UpdateStatus fl now db ident status =
     (if fl ''driverRepo.UpdateStatus'' then Inl ErrDatabase
      else Inr (db\<lparr>drivers :=
                  map (\<lambda>d. if Driver_ID d = ident
                            then d\<lparr>Driver_Status := status, Driver_UpdatedAt := now\<rparr> else d)
                      (drivers db)\<rparr>))"

definition driverRepo_GetOnlineDriversByVehicleType :: "faults \<Rightarrow> DB \<Rightarrow> string \<Rightarrow> err + Driver list" where
  "driverRepo_GetOnlineDriversByVehicleType fl db vehicleType =
     (if fl ''driverRepo.GetOnlineDriversByVehicleType'' then Inl ErrDatabase
      else Inr (filter (\<lambda>d. Driver_Status d = DriverStatusOnline
                             \<and> Driver_VehicleType d = vehicleType
                             \<and> Driver_CurrentLat d \<noteq> None \<and> Driver_CurrentLng d \<noteq> None)
                       (drivers db)))"

definition tripRepo_Create :: "faults \<Rightarrow> string \<Rightarrow> time \<Rightarrow> DB \<Rightarrow> Trip \<Rightarrow> Trip \<times> (err + DB)" where
  "tripRepo_Create fl uuid now db trip =
     (let trip1 = (if Trip_ID trip = [] then trip\<lparr>Trip_ID := uuid\<rparr> else trip);
          trip2 = trip1\<lparr>Trip_CreatedAt := now, Trip_UpdatedAt := now,
                        Trip_StartTime := Some now, Trip_Status := TripStatusStarted\<rparr>;
          row = trip2\<lparr>Trip_PauseDurationSecs := 0\<rparr>
      in if fl ''tripRepo.Create''
            \<or> Trip_ID trip2 \<in> set (map Trip_ID (trips db))
            \<or> Trip_RideID trip2 \<notin> set (map Ride_ID (rides db))
            \<or> Trip_DriverID trip2 \<notin> set (map Driver_ID (drivers db))
            \<or> Trip_UserID trip2 \<notin> set (map User_ID (users db))
         then (trip2, Inl ErrDatabase)
         else (trip2, Inr (db\<lparr>trips := trips db @ [row]\<rparr>)))"

definition tripRepo_GetByRideID :: "faults \<Rightarrow> DB \<Rightarrow> string \<Rightarrow> err + Trip option" where
  "tripRepo_GetByRideID fl db rideID =
     (if fl ''tripRepo.GetByRideID'' then Inl ErrDatabase
      else Inr (find (\<lambda>t. Trip_RideID t = rideID) (trips db)))"

definition offerRepo_Create :: "faults \<Rightarrow> string \<Rightarrow> time \<Rightarrow> DB \<Rightarrow> RideOffer \<Rightarrow> RideOffer \<times> (err + DB)" where
  "offerRepo_Create fl uuid now db offer =
     (let offer1 = (if Offer_ID offer = [] then offer\<lparr>Offer_ID := uuid\<rparr> else offer);
          offer2 = offer1\<lparr>Offer_OfferedAt := now, Offer_Status := OfferStatusPending\<rparr>
      in if fl (''offerRepo.Create:'' @ Offer_DriverID offer2)
            \<or> Offer_ID offer2 \<in> set (map Offer_ID (ride_offers db))
            \<or> (Offer_RideID offer2, Offer_DriverID offer2)
                 \<in> set (map (\<lambda>ofr. (Offer_RideID ofr, Offer_DriverID ofr)) (ride_offers db))
            \<or> Offer_RideID offer2 \<notin> set (map Ride_ID (rides db))
            \<or> Offer_DriverID offer2 \<notin> set (map Driver_ID (drivers db))
         then (offer2, Inl ErrDatabase)
         else (offer2, Inr (db\<lparr>ride_offers := ride_offers db @ [offer2]\<rparr>)))"

definition offerRepo_GetByID :: "faults \<Rightarrow> DB \<Rightarrow> string \<Rightarrow> err + RideOffer option" where
  "offerRepo_GetByID fl db ident =
     (if fl ''offerRepo.GetByID'' then Inl ErrDatabase
      else Inr (find (\<lambda>ofr. Offer_ID ofr = ident) (ride_offers db)))"

text \<open>
  \<open>GetByRideAndDriver\<close> hands back a non-nil pointer together with the error when the
  query fails for a reason other than \<open>sql.ErrNoRows\<close>; the result is the pair
  (pointer is non-nil, error), which is all that \<open>scoreDrivers\<close> looks at.
\<close>

definition offerRepo_GetByRideAndDriver :: "faults \<Rightarrow> DB \<Rightarrow> string \<Rightarrow> string \<Rightarrow> bool \<times> err option" where
  "offerRepo_GetByRideAndDriver fl db rideID driverID =
     (if fl (''offerRepo.GetByRideAndDriver:'' @ driverID) then (True, Some ErrDatabase)
      else (find (\<lambda>ofr. Offer_RideID ofr = rideID \<and> Offer_DriverID ofr = driverID) (ride_offers db)
              \<noteq> None, None))"

definition offerRepo_UpdateStatus :: "faults \<Rightarrow> time \<Rightarrow> DB \<Rightarrow> string \<Rightarrow> string \<Rightarrow> err + DB" where
  "offerRepo_UpdateStatus fl now db ident status =
     (if fl ''offerRepo.UpdateStatus'' then Inl ErrDatabase
      else Inr (db\<lparr>ride_offers :=
                  map (\<lambda>ofr. if Offer_ID ofr = ident
                            then ofr\<lparr>Offer_Status := status, Offer_RespondedAt := Some now\<rparr> else ofr)
                      (ride_offers db)\<rparr>))"

section \<open>The presence cache (package cache)\<close>

text \<open>
  The cache server holds hashes (\<open>HSET\<close>/\<open>HGETALL\<close>), plain keys (\<open>SET\<close>/\<open>GET\<close>) and
  one geo set per vehicle class. \<open>Cache_GeoRadius c key lng lat radiusKm\<close> is the
  server's answer to \<open>GEORADIUS key lng lat radiusKm km WITHDIST COUNT 50 ASC\<close>: the
  members within the radius with their distances, nearest first.
\<close>

record Cache =
  Cache_GeoRadius :: "string \<Rightarrow> real \<Rightarrow> real \<Rightarrow> real \<Rightarrow> (string \<times> real) list"
  Cache_Hashes :: "string \<Rightarrow> (string \<rightharpoonup> string)"
  Cache_Strings :: "string \<rightharpoonup> string"

record DriverWithDistance =
  dwd_DriverID :: string
  dwd_Distance :: real

definition driverLocationKeyPrefix :: string where
  "driverLocationKeyPrefix = ''drivers:locations:''"

definition driverMetaKeyPrefix :: string where
  "driverMetaKeyPrefix = ''driver:meta:''"

definition driverActiveRideKey :: string where
  "driverActiveRideKey = ''driver:active:''"

text \<open>Indexing a Go map: a missing key reads as the empty string.\<close>

definition map_index :: "(string \<rightharpoonup> string) \<Rightarrow> string \<Rightarrow> string" where
  "map_index m k = (case m k of None \<Rightarrow> [] | Some v \<Rightarrow> v)"

definition GetDriverMeta :: "faults \<Rightarrow> Cache \<Rightarrow> string \<Rightarrow> (string \<rightharpoonup> string) \<times> err option" where
  "GetDriverMeta fl c driverID =
     (if fl (''cache.GetDriverMeta:'' @ driverID) then (Map.empty, Some ErrCache)
      else (Cache_Hashes c (driverMetaKeyPrefix @ driverID), None))"

fun nearby_online :: "faults \<Rightarrow> Cache \<Rightarrow> (string \<times> real) list \<Rightarrow> DriverWithDistance list" where
  "nearby_online fl c [] = []"
| "nearby_online fl c ((name, km) # locations) =
     (case GetDriverMeta fl c name of
        (meta, Some e) \<Rightarrow> nearby_online fl c locations
      | (meta, None) \<Rightarrow>
          if map_index meta ''status'' \<noteq> ''online'' then nearby_online fl c locations
          else \<lparr>dwd_DriverID = name, dwd_Distance = km\<rparr> # nearby_online fl c locations)"

definition GetNearbyDrivers ::
  "faults \<Rightarrow> Cache \<Rightarrow> real \<Rightarrow> real \<Rightarrow> real \<Rightarrow> string \<Rightarrow> DriverWithDistance list \<times> err option" where
  "GetNearbyDrivers fl c lat lng radiusKm vehicleType =
     (if fl ''cache.GetNearbyDrivers'' then ([], Some ErrCache)
      else (nearby_online fl c
              (Cache_GeoRadius c (driverLocationKeyPrefix @ vehicleType) lng lat radiusKm),
            None))"

definition GetActiveRide :: "faults \<Rightarrow> Cache \<Rightarrow> string \<Rightarrow> string \<times> err option" where
  "GetActiveRide fl c driverID =
     (if fl (''cache.GetActiveRide:'' @ driverID) then ([], Some ErrCache)
      else (case Cache_Strings c (driverActiveRideKey @ driverID) of
              None \<Rightarrow> ([], None)
            | Some result \<Rightarrow> (result, None)))"

definition SetActiveRide :: "faults \<Rightarrow> Cache \<Rightarrow> string \<Rightarrow> string \<Rightarrow> err + Cache" where
  "SetActiveRide fl c driverID rideID =
     (if fl ''cache.SetActiveRide'' then Inl ErrCache
      else Inr (c\<lparr>Cache_Strings := (Cache_Strings c)(driverActiveRideKey @ driverID \<mapsto> rideID)\<rparr>))"

text \<open>
  \<open>ParseRating\<close> with \<open>strconv.ParseFloat\<close> as the parameter \<open>parseFloat\<close>
  (\<open>None\<close> when the string is not a number).
\<close>

definition ParseRating :: "(string \<Rightarrow> real option) \<Rightarrow> string \<Rightarrow> real" where
  "ParseRating parseFloat ratingStr =
     (if ratingStr = [] then 5
      else case parseFloat ratingStr of None \<Rightarrow> 5 | Some rating \<Rightarrow> rating)"

section \<open>Ride service\<close>

text \<open>
  \<open>CreateRide\<close>. The services are built with a driver cache (\<open>cmd/server/main.go\<close>),
  so the guard \<open>s.driverCache != nil\<close> holds. \<open>uuid\<close> is the identifier
  \<open>uuid.New()\<close> draws and \<open>now\<close> the clock reading. The result is the new database
  and the returned ride or error.
\<close>

definition new_ride ::
  "CreateRideRequest \<Rightarrow> string \<Rightarrow> real \<Rightarrow> real \<Rightarrow> real \<Rightarrow> int \<Rightarrow> Ride" where
  "new_ride req idempotencyKey fareTotal surgeMultiplier distanceKm durationMins =
     \<lparr>Ride_ID = [], Ride_UserID = Req_UserID req, Ride_DriverID = None,
      Ride_PickupLat = Lat (Req_Pickup req), Ride_PickupLng = Lng (Req_Pickup req),
      Ride_PickupAddress =
        (if Address (Req_Pickup req) \<noteq> [] then Some (Address (Req_Pickup req)) else None),
      Ride_DropoffLat = Lat (Req_Dropoff req),
      Ride_DropoffLng = Lng (Req_Dropoff req),
      Ride_DropoffAddress =
        (if Address (Req_Dropoff req) \<noteq> [] then Some (Address (Req_Dropoff req)) else None),
      Ride_VehicleType = Req_VehicleType req,
      Ride_Status = RideStatusPending,
      Ride_EstimatedFare = Some fareTotal,
      Ride_SurgeMultiplier = surgeMultiplier,
      Ride_EstimatedDistanceKm = Some distanceKm,
      Ride_EstimatedDurationMin = Some durationMins,
      Ride_PaymentMethod = Req_PaymentMethod req,
      Ride_IdempotencyKey = (if idempotencyKey \<noteq> [] then Some idempotencyKey else None),
      Ride_CancelledBy = None, Ride_CancellationReason = None,
      Ride_CreatedAt = 0, Ride_UpdatedAt = 0\<rparr>"

definition CreateRide ::
  "faults \<Rightarrow> string \<Rightarrow> time \<Rightarrow> DB \<Rightarrow> Cache \<Rightarrow> CreateRideRequest \<Rightarrow> string \<Rightarrow> DB \<times> (err + Ride)" where
  "CreateRide fl uuid now db c req idempotencyKey =
     (case (if idempotencyKey \<noteq> [] then rideRepo_GetByIdempotencyKey fl db idempotencyKey
            else Inr None) of
        Inl e \<Rightarrow> (db, Inl e)
      | Inr (Some existingRide) \<Rightarrow> (db, Inr existingRide)
      | Inr None \<Rightarrow>
     (case userRepo_GetByID fl db (Req_UserID req) of
        Inl e \<Rightarrow> (db, Inl e)
      | Inr None \<Rightarrow> (db, Inl (ApiErr (NotFound ''user'')))
      | Inr (Some user) \<Rightarrow>
     (case rideRepo_GetActiveRideByUserID fl db (Req_UserID req) of
        Inl e \<Rightarrow> (db, Inl e)
      | Inr (Some activeRide) \<Rightarrow> (db, Inl (ApiErr UserHasActiveRide))
      | Inr None \<Rightarrow>
     (let distanceKm = EstimateDistance (Lat (Req_Pickup req)) (Lng (Req_Pickup req))
                         (Lat (Req_Dropoff req)) (Lng (Req_Dropoff req));
          durationMins = EstimateDuration distanceKm;
          nearbyDrivers = fst (GetNearbyDrivers fl c (Lat (Req_Pickup req)) (Lng (Req_Pickup req))
                                 2 (Req_VehicleType req));
          surgeMultiplier = (if length nearbyDrivers < 5
                             then CalculateSurge 10 (int (length nearbyDrivers)) else 1);
          fare = CalculateEstimatedFare (Req_VehicleType req) distanceKm durationMins
                   surgeMultiplier;
          ride = new_ride req idempotencyKey (Total fare) surgeMultiplier distanceKm durationMins
      in case rideRepo_Create fl uuid now db ride of
           (ride', Inl e) \<Rightarrow> (db, Inl e)
         | (ride', Inr db1) \<Rightarrow>
             let db2 = (case rideRepo_UpdateStatus fl now db1 (Ride_ID ride') RideStatusMatching of
                          Inl e \<Rightarrow> db1 | Inr d \<Rightarrow> d)
             in (db2, Inr (ride'\<lparr>Ride_Status := RideStatusMatching\<rparr>))))))"

text \<open>
  The surge that \<open>CreateRide\<close> estimates for a request: \<open>CalculateSurge(10, n)\<close> when
  fewer than five candidates are within 2 km of the pickup, else 1.
\<close>

definition estimated_surge :: "faults \<Rightarrow> Cache \<Rightarrow> CreateRideRequest \<Rightarrow> real" where
  "estimated_surge fl c req =
     (let n = length (fst (GetNearbyDrivers fl c (Lat (Req_Pickup req)) (Lng (Req_Pickup req))
                          2 (Req_VehicleType req)))
      in if n < 5 then CalculateSurge 10 (int n) else 1)"

definition CancelRide ::
  "faults \<Rightarrow> time \<Rightarrow> DB \<Rightarrow> string \<Rightarrow> CancelRideRequest \<Rightarrow> DB \<times> err option" where
  "CancelRide fl now db ident req =
     (case rideRepo_GetByID fl db ident of
        Inl e \<Rightarrow> (db, Some e)
      | Inr None \<Rightarrow> (db, Some (ApiErr (NotFound ''ride'')))
      | Inr (Some ride) \<Rightarrow>
          if \<not> CanTransitionTo ride RideStatusCancelled
          then (db, Some (ApiErr (InvalidTransition (Ride_Status ride) RideStatusCancelled)))
          else (case rideRepo_Cancel fl now db ident (Cancel_CancelledBy req) (Cancel_Reason req) of
                  Inl e \<Rightarrow> (db, Some e)
                | Inr db1 \<Rightarrow>
                    (case Ride_DriverID ride of
                       None \<Rightarrow> (db1, None)
                     | Some driverID \<Rightarrow>
                         (case driverRepo_UpdateStatus fl now db1 driverID DriverStatusOnline of
                            Inl e \<Rightarrow> (db1, None)
                          | Inr db2 \<Rightarrow> (db2, None)))))"

definition UpdateRideStatus :: "faults \<Rightarrow> time \<Rightarrow> DB \<Rightarrow> string \<Rightarrow> string \<Rightarrow> DB \<times> err option" where
  "UpdateRideStatus fl now db ident status =
     (case rideRepo_GetByID fl db ident of
        Inl e \<Rightarrow> (db, Some e)
      | Inr None \<Rightarrow> (db, Some (ApiErr (NotFound ''ride'')))
      | Inr (Some ride) \<Rightarrow>
          if \<not> CanTransitionTo ride status
          then (db, Some (ApiErr (InvalidTransition (Ride_Status ride) status)))
          else (case rideRepo_UpdateStatus fl now db ident status of
                  Inl e \<Rightarrow> (db, Some e)
                | Inr db1 \<Rightarrow> (db1, None)))"

section \<open>Trip service\<close>

definition StartTrip :: "faults \<Rightarrow> string \<Rightarrow> time \<Rightarrow> DB \<Rightarrow> string \<Rightarrow> DB \<times> (err + Trip)" where
  "StartTrip fl uuid now db rideID =
     (case rideRepo_GetByID fl db rideID of
        Inl e \<Rightarrow> (db, Inl e)
      | Inr None \<Rightarrow> (db, Inl (ApiErr (NotFound ''ride'')))
      | Inr (Some ride) \<Rightarrow>
          if Ride_Status ride \<noteq> RideStatusDriverArrived
          then (db, Inl (ApiErr (BadRequest ''driver must arrive before starting trip'')))
          else (case Ride_DriverID ride of
                  None \<Rightarrow> (db, Inl (ApiErr (BadRequest ''no driver assigned'')))
                | Some driverID \<Rightarrow>
                    (case tripRepo_GetByRideID fl db rideID of
                       Inl e \<Rightarrow> (db, Inl e)
                     | Inr (Some existingTrip) \<Rightarrow> (db, Inr existingTrip)
                     | Inr None \<Rightarrow>
                         (let trip = \<lparr>Trip_ID = [], Trip_RideID = rideID,
                                       Trip_DriverID = driverID, Trip_UserID = Ride_UserID ride,
                                       Trip_Status = TripStatusStarted, Trip_StartTime = None,
                                       Trip_EndTime = None, Trip_PauseDurationSecs = 0,
                                       Trip_ActualDistanceKm = None,
                                       Trip_ActualDurationMin = None,
                                       Trip_RoutePolyline = None, Trip_BaseFare = None,
                                       Trip_DistanceFare = None, Trip_TimeFare = None,
                                       Trip_SurgeAmount = None, Trip_TotalFare = None,
                                       Trip_CreatedAt = 0, Trip_UpdatedAt = 0\<rparr>
                          in case tripRepo_Create fl uuid now db trip of
                               (trip', Inl e) \<Rightarrow> (db, Inl e)
                             | (trip', Inr db1) \<Rightarrow>
                                 (case rideRepo_UpdateStatus fl now db1 rideID
                                         RideStatusInProgress of
                                    Inl e \<Rightarrow> (db1, Inr trip')
                                  | Inr db2 \<Rightarrow> (db2, Inr trip'))))))"


text \<open>
  \<open>int(f)\<close> on a \<open>float64\<close> and \<open>/\<close> on integers both truncate toward zero.
\<close>

definition go_int :: "real \<Rightarrow> int" where
  "go_int x = (if x < 0 then \<lceil>x\<rceil> else \<lfloor>x\<rfloor>)"

definition go_div :: "int \<Rightarrow> int \<Rightarrow> int" where
  "go_div a b = sgn a * sgn b * (\<bar>a\<bar> div \<bar>b\<bar>)"

definition ValidTripTransitions :: "string \<rightharpoonup> string list" where
  "ValidTripTransitions =
     [TripStatusStarted \<mapsto> [TripStatusPaused, TripStatusCompleted, TripStatusCancelled],
      TripStatusPaused \<mapsto> [TripStatusStarted, TripStatusCompleted, TripStatusCancelled],
      TripStatusCompleted \<mapsto> [],
      TripStatusCancelled \<mapsto> []]"

definition Trip_CanTransitionTo :: "Trip \<Rightarrow> string \<Rightarrow> bool" where
  "Trip_CanTransitionTo t newStatus =
     (case ValidTripTransitions (Trip_Status t) of
        None \<Rightarrow> False
      | Some validNextStates \<Rightarrow> newStatus \<in> set validNextStates)"

record EndTripRequest =
  End_EndLat :: real
  End_EndLng :: real
  End_OdometerKm :: "real option"

definition tripRepo_GetByID :: "faults \<Rightarrow> DB \<Rightarrow> string \<Rightarrow> err + Trip option" where
  "tripRepo_GetByID fl db ident =
     (if fl ''tripRepo.GetByID'' then Inl ErrDatabase
      else Inr (find (\<lambda>t. Trip_ID t = ident) (trips db)))"

definition tripRepo_EndTrip :: "faults \<Rightarrow> time \<Rightarrow> DB \<Rightarrow> Trip \<Rightarrow> Trip \<times> (err + DB)" where
  "tripRepo_EndTrip fl now db trip =
     (let trip1 = trip\<lparr>Trip_EndTime := Some now, Trip_UpdatedAt := now,
                       Trip_Status := TripStatusCompleted\<rparr>
      in if fl ''tripRepo.EndTrip'' then (trip1, Inl ErrDatabase)
         else (trip1,
               Inr (db\<lparr>trips :=
                      map (\<lambda>t. if Trip_ID t = Trip_ID trip1
                                then t\<lparr>Trip_Status := Trip_Status trip1,
                                       Trip_EndTime := Trip_EndTime trip1,
                                       Trip_ActualDistanceKm := Trip_ActualDistanceKm trip1,
                                       Trip_ActualDurationMin := Trip_ActualDurationMin trip1,
                                       Trip_BaseFare := Trip_BaseFare trip1,
                                       Trip_DistanceFare := Trip_DistanceFare trip1,
                                       Trip_TimeFare := Trip_TimeFare trip1,
                                       Trip_SurgeAmount := Trip_SurgeAmount trip1,
                                       Trip_TotalFare := Trip_TotalFare trip1,
                                       Trip_UpdatedAt := Trip_UpdatedAt trip1\<rparr>
                                else t)
                          (trips db)\<rparr>)))"

definition driverRepo_IncrementTotalTrips :: "faults \<Rightarrow> time \<Rightarrow> DB \<Rightarrow> string \<Rightarrow> err + DB" where
  "driverRepo_IncrementTotalTrips fl now db ident =
     (if fl ''driverRepo.IncrementTotalTrips'' then Inl ErrDatabase
      else Inr (db\<lparr>drivers :=
                  map (\<lambda>d. if Driver_ID d = ident
                            then d\<lparr>Driver_TotalTrips := Driver_TotalTrips d + 1,
                                   Driver_UpdatedAt := now\<rparr>
                            else d)
                      (drivers db)\<rparr>))"

definition userActiveRideKey :: string where
  "userActiveRideKey = ''user:active:''"

definition cache_Del :: "faults \<Rightarrow> Cache \<Rightarrow> string \<Rightarrow> Cache" where
  "cache_Del fl c k =
     (if fl (''cache.Del:'' @ k) then c else c\<lparr>Cache_Strings := (Cache_Strings c)(k := None)\<rparr>)"

text \<open>
  \<open>EndTrip\<close>; the value returned is the trip the response is rendered from.
\<close>

definition EndTrip ::
  "faults \<Rightarrow> time \<Rightarrow> DB \<Rightarrow> Cache \<Rightarrow> string \<Rightarrow> EndTripRequest \<Rightarrow> (DB \<times> Cache) \<times> (err + Trip)" where
  "EndTrip fl now db c tripID req =
     (case tripRepo_GetByID fl db tripID of
        Inl e \<Rightarrow> ((db, c), Inl e)
      | Inr None \<Rightarrow> ((db, c), Inl (ApiErr (NotFound ''trip'')))
      | Inr (Some trip) \<Rightarrow>
          if \<not> Trip_CanTransitionTo trip TripStatusCompleted
          then ((db, c), Inl (ApiErr (InvalidTransition (Trip_Status trip) TripStatusCompleted)))
          else
         (case rideRepo_GetByID fl db (Trip_RideID trip) of
            Inl e \<Rightarrow> ((db, c), Inl e)
          | Inr None \<Rightarrow> ((db, c), Inl (ApiErr (NotFound ''ride'')))
          | Inr (Some ride) \<Rightarrow>
             (let actualDistanceKm =
                    (case End_OdometerKm req of
                       Some km \<Rightarrow> km
                     | None \<Rightarrow>
                         (case Ride_EstimatedDistanceKm ride of
                            Some km \<Rightarrow> km
                          | None \<Rightarrow> EstimateDistance (Ride_PickupLat ride) (Ride_PickupLng ride)
                                      (End_EndLat req) (End_EndLng req)));
                  actualDurationMins =
                    (case Trip_StartTime trip of
                       Some start \<Rightarrow>
                         (let m = go_int (real_of_int (now - start) / real_of_int (60 * Second))
                                  - go_div (Trip_PauseDurationSecs trip) 60
                          in if m < 1 then 1 else m)
                     | None \<Rightarrow> EstimateDuration actualDistanceKm);
                  fare = CalculateActualFare (Ride_VehicleType ride) actualDistanceKm
                           actualDurationMins (Ride_SurgeMultiplier ride);
                  trip1 = trip\<lparr>Trip_ActualDistanceKm := Some actualDistanceKm,
                               Trip_ActualDurationMin := Some actualDurationMins,
                               Trip_BaseFare := Some (BaseFare fare),
                               Trip_DistanceFare := Some (DistanceFare fare),
                               Trip_TimeFare := Some (TimeFare fare),
                               Trip_SurgeAmount := Some (SurgeAmount fare),
                               Trip_TotalFare := Some (Total fare),
                               Trip_Status := TripStatusCompleted\<rparr>
              in case tripRepo_EndTrip fl now db trip1 of
                   (trip2, Inl e) \<Rightarrow> ((db, c), Inl e)
                 | (trip2, Inr db1) \<Rightarrow>
                     (let db2 = (case rideRepo_UpdateStatus fl now db1 (Trip_RideID trip2)
                                        RideStatusCompleted of
                                   Inl e \<Rightarrow> db1 | Inr d \<Rightarrow> d);
                          db3 = (case driverRepo_UpdateStatus fl now db2 (Trip_DriverID trip2)
                                        DriverStatusOnline of
                                   Inl e \<Rightarrow> db2 | Inr d \<Rightarrow> d);
                          db4 = (case driverRepo_IncrementTotalTrips fl now db3
                                        (Trip_DriverID trip2) of
                                   Inl e \<Rightarrow> db3 | Inr d \<Rightarrow> d);
                          c1 = cache_Del fl c (driverActiveRideKey @ Trip_DriverID trip2);
                          c2 = cache_Del fl c1 (userActiveRideKey @ Trip_UserID trip2)
                      in ((db4, c2), Inr trip2)))))"

section \<open>Driver service: the offer protocol\<close>

definition offerRepo_GetByIDForUpdate :: "faults \<Rightarrow> DB \<Rightarrow> string \<Rightarrow> err + RideOffer option" where
  "offerRepo_GetByIDForUpdate fl tx ident =
     (if fl ''offerRepo.GetByIDForUpdate'' then Inl ErrDatabase
      else Inr (find (\<lambda>ofr. Offer_ID ofr = ident) (ride_offers tx)))"

definition rideRepo_GetByIDForUpdate :: "faults \<Rightarrow> DB \<Rightarrow> string \<Rightarrow> err + Ride option" where
  "rideRepo_GetByIDForUpdate fl tx ident =
     (if fl ''rideRepo.GetByIDForUpdate'' then Inl ErrDatabase
      else Inr (find (\<lambda>r. Ride_ID r = ident) (rides tx)))"

text \<open>The four \<open>tx.ExecContext\<close> statements of \<open>AcceptRide\<close>, in the order of the source.\<close>

definition exec_accept_offer :: "time \<Rightarrow> string \<Rightarrow> DB \<Rightarrow> DB" where
  "exec_accept_offer now offerID tx =
     tx\<lparr>ride_offers :=
          map (\<lambda>ofr. if Offer_ID ofr = offerID
                      then ofr\<lparr>Offer_Status := OfferStatusAccepted,
                               Offer_RespondedAt := Some now\<rparr>
                      else ofr)
              (ride_offers tx)\<rparr>"

definition exec_assign_driver :: "time \<Rightarrow> string \<Rightarrow> string \<Rightarrow> DB \<Rightarrow> DB" where
  "exec_assign_driver now driverID rideID tx =
     tx\<lparr>rides :=
          map (\<lambda>r. if Ride_ID r = rideID
                    then r\<lparr>Ride_DriverID := Some driverID,
                           Ride_Status := RideStatusDriverAssigned, Ride_UpdatedAt := now\<rparr>
                    else r)
              (rides tx)\<rparr>"

definition exec_driver_busy :: "time \<Rightarrow> string \<Rightarrow> DB \<Rightarrow> DB" where
  "exec_driver_busy now driverID tx =
     tx\<lparr>drivers :=
          map (\<lambda>d. if Driver_ID d = driverID
                    then d\<lparr>Driver_Status := DriverStatusBusy, Driver_UpdatedAt := now\<rparr>
                    else d)
              (drivers tx)\<rparr>"

definition exec_expire_pending :: "time \<Rightarrow> string \<Rightarrow> DB \<Rightarrow> DB" where
  "exec_expire_pending now rideID tx =
     tx\<lparr>ride_offers :=
          map (\<lambda>ofr. if Offer_RideID ofr = rideID \<and> Offer_Status ofr = OfferStatusPending
                      then ofr\<lparr>Offer_Status := OfferStatusExpired,
                               Offer_RespondedAt := Some now\<rparr>
                      else ofr)
              (ride_offers tx)\<rparr>"

text \<open>
  The body of the transaction, run on the transaction's view \<open>tx\<close> of the database: an
  error on the left, or the view after the four updates together with the locked ride.
  \<open>now1\<close> is the clock reading of \<open>IsExpired\<close>, \<open>now\<close> the later one that stamps
  the updates. Assigning a driver that is not a row of \<open>drivers\<close> breaks the foreign
  key of \<open>rides.driver_id\<close>.
\<close>

definition AcceptRide_tx ::
  "faults \<Rightarrow> time \<Rightarrow> time \<Rightarrow> DB \<Rightarrow> string \<Rightarrow> AcceptRideRequest \<Rightarrow> err + (DB \<times> Ride)" where
  "AcceptRide_tx fl now1 now tx driverID req =
     (case offerRepo_GetByIDForUpdate fl tx (Accept_OfferID req) of
        Inl e \<Rightarrow> Inl e
      | Inr None \<Rightarrow> Inl (ApiErr (NotFound ''offer''))
      | Inr (Some offer) \<Rightarrow>
          if Offer_DriverID offer \<noteq> driverID
          then Inl (ApiErr (Unauthorized ''offer not for this driver''))
          else if Offer_RideID offer \<noteq> Accept_RideID req
          then Inl (ApiErr (BadRequest ''offer ride mismatch''))
          else if IsExpired now1 offer then Inl (ApiErr OfferExpired)
          else if Offer_Status offer \<noteq> OfferStatusPending
          then Inl (ApiErr (BadRequest ''offer already responded''))
          else
         (case rideRepo_GetByIDForUpdate fl tx (Accept_RideID req) of
            Inl e \<Rightarrow> Inl e
          | Inr None \<Rightarrow> Inl (ApiErr (NotFound ''ride''))
          | Inr (Some ride) \<Rightarrow>
              if Ride_Status ride \<noteq> RideStatusMatching then Inl (ApiErr RideAlreadyAssigned)
              else if fl ''tx.Exec:accept_offer'' then Inl ErrDatabase
              else let tx1 = exec_accept_offer now (Offer_ID offer) tx
              in if fl ''tx.Exec:assign_driver'' \<or> driverID \<notin> set (map Driver_ID (drivers tx1))
                 then Inl ErrDatabase
              else let tx2 = exec_assign_driver now driverID (Ride_ID ride) tx1
              in if fl ''tx.Exec:driver_busy'' then Inl ErrDatabase
              else let tx3 = exec_driver_busy now driverID tx2
              in if fl ''tx.Exec:expire_pending'' then Inl ErrDatabase
              else let tx4 = exec_expire_pending now (Ride_ID ride) tx3
              in Inr (tx4, ride)))"

text \<open>
  \<open>AcceptRide\<close>: \<open>BeginTxx\<close>, the body, then \<open>Commit\<close>; the deferred \<open>Rollback\<close>
  discards the transaction's view on every path that returns before the commit. The
  value returned is the ride the response is rendered from.
\<close>

definition AcceptRide ::
  "faults \<Rightarrow> time \<Rightarrow> time \<Rightarrow> DB \<Rightarrow> Cache \<Rightarrow> string \<Rightarrow> AcceptRideRequest
     \<Rightarrow> (DB \<times> Cache) \<times> (err + Ride)" where
  "AcceptRide fl now1 now db c driverID req =
     (if fl ''db.BeginTxx'' then ((db, c), Inl ErrDatabase)
      else case AcceptRide_tx fl now1 now db driverID req of
             Inl e \<Rightarrow> ((db, c), Inl e)
           | Inr (tx, ride) \<Rightarrow>
               if fl ''tx.Commit'' then ((db, c), Inl ErrDatabase)
               else let c1 = (case SetActiveRide fl c driverID (Ride_ID ride) of
                                Inl e \<Rightarrow> c | Inr c' \<Rightarrow> c')
                    in ((tx, c1),
                        Inr (ride\<lparr>Ride_DriverID := Some driverID,
                                  Ride_Status := RideStatusDriverAssigned\<rparr>)))"

text \<open>
  \<open>DeclineRide\<close> opens no transaction and takes no lock: it reads the offer with a plain
  \<open>SELECT\<close>, checks it, and then issues an \<open>UPDATE\<close> that names the offer by its
  identifier only. Other requests can commit between the two statements, so the model
  takes two stores: \<open>seen\<close>, the store the \<open>SELECT\<close> reads, and \<open>db\<close>, the store
  the \<open>UPDATE\<close> is applied to. They are the same store when nothing commits in between.
\<close>

definition DeclineRide :: "faults \<Rightarrow> time \<Rightarrow> DB \<Rightarrow> DB \<Rightarrow> string \<Rightarrow> string \<Rightarrow> DB \<times> err option" where
  "DeclineRide fl now seen db driverID offerID =
     (case offerRepo_GetByID fl seen offerID of
        Inl e \<Rightarrow> (db, Some e)
      | Inr None \<Rightarrow> (db, Some (ApiErr (NotFound ''offer'')))
      | Inr (Some offer) \<Rightarrow>
          if Offer_DriverID offer \<noteq> driverID
          then (db, Some (ApiErr (Unauthorized ''offer not for this driver'')))
          else if Offer_Status offer \<noteq> OfferStatusPending
          then (db, Some (ApiErr (BadRequest ''offer already responded'')))
          else (case offerRepo_UpdateStatus fl now db offerID OfferStatusDeclined of
                  Inl e \<Rightarrow> (db, Some e)
                | Inr db1 \<Rightarrow> (db1, None)))"

section \<open>Matching service\<close>

definition defaultOfferTimeout :: int where
  "defaultOfferTimeout = 15 * Second"

definition defaultMatchRadius :: real where
  "defaultMatchRadius = 5"

record ScoredDriver =
  sd_DriverID :: string
  sd_Score :: real
  sd_Distance :: real

text \<open>The comparison \<open>scoreDrivers\<close> hands to \<open>sort.Slice\<close>.\<close>

definition by_score :: "ScoredDriver \<Rightarrow> ScoredDriver \<Rightarrow> bool" where
  "by_score a b = (sd_Score a > sd_Score b)"

text \<open>
  The loop of \<open>scoreDrivers\<close>. \<open>parseFloat\<close> stands for \<open>strconv.ParseFloat\<close>.
\<close>

fun score_loop ::
  "faults \<Rightarrow> (string \<Rightarrow> real option) \<Rightarrow> DB \<Rightarrow> Cache \<Rightarrow> Ride \<Rightarrow> DriverWithDistance list
     \<Rightarrow> ScoredDriver list" where
  "score_loop fl parseFloat db c ride [] = []"
| "score_loop fl parseFloat db c ride (d # ds) =
     (if fst (offerRepo_GetByRideAndDriver fl db (Ride_ID ride) (dwd_DriverID d))
      then score_loop fl parseFloat db c ride ds
      else case GetDriverMeta fl c (dwd_DriverID d) of
             (meta, Some e) \<Rightarrow> score_loop fl parseFloat db c ride ds
           | (meta, None) \<Rightarrow>
               if map_index meta ''status'' \<noteq> DriverStatusOnline
               then score_loop fl parseFloat db c ride ds
               else if fst (GetActiveRide fl c (dwd_DriverID d)) \<noteq> []
               then score_loop fl parseFloat db c ride ds
               else \<lparr>sd_DriverID = dwd_DriverID d,
                     sd_Score = 100 - dwd_Distance d * 10
                                + ParseRating parseFloat (map_index meta ''rating'') * 5,
                     sd_Distance = dwd_Distance d\<rparr>
                    # score_loop fl parseFloat db c ride ds)"

text \<open>
  \<open>sort_Slice\<close> stands for \<open>sort.Slice\<close> of the Go library, which is not part of the
  repository: it takes the comparison and the slice and yields the reordered slice.
\<close>

definition scoreDrivers ::
  "((ScoredDriver \<Rightarrow> ScoredDriver \<Rightarrow> bool) \<Rightarrow> ScoredDriver list \<Rightarrow> ScoredDriver list)
     \<Rightarrow> faults \<Rightarrow> (string \<Rightarrow> real option) \<Rightarrow> DB \<Rightarrow> Cache \<Rightarrow> DriverWithDistance list \<Rightarrow> Ride
     \<Rightarrow> ScoredDriver list" where
  "scoreDrivers sort_Slice fl parseFloat db c drivers_near ride =
     sort_Slice by_score (score_loop fl parseFloat db c ride drivers_near)"

text \<open>
  The first part of \<open>FindAndOfferDrivers\<close>: the candidates from the spatial index, or from
  the durable store when the index has none; on the left an early return with the
  database it leaves behind.
\<close>

definition find_candidates ::
  "faults \<Rightarrow> time \<Rightarrow> DB \<Rightarrow> Cache \<Rightarrow> Ride \<Rightarrow> (DB \<times> err) + DriverWithDistance list" where
  "find_candidates fl now db c ride =
     (case GetNearbyDrivers fl c (Ride_PickupLat ride) (Ride_PickupLng ride) defaultMatchRadius
             (Ride_VehicleType ride) of
        (nearbyDrivers, Some e) \<Rightarrow> Inl (db, e)
      | (nearbyDrivers, None) \<Rightarrow>
          if length nearbyDrivers = 0
          then (case driverRepo_GetOnlineDriversByVehicleType fl db (Ride_VehicleType ride) of
                  Inl e \<Rightarrow> Inl (db, e)
                | Inr dbDrivers \<Rightarrow>
                    if length dbDrivers = 0
                    then (case rideRepo_Cancel fl now db (Ride_ID ride) ''system''
                                 ''no drivers available'' of
                            Inl e \<Rightarrow> Inl (db, ErrNoDriversAvailable)
                          | Inr db1 \<Rightarrow> Inl (db1, ErrNoDriversAvailable))
                    else Inr (nearbyDrivers @
                              map (\<lambda>d. \<lparr>dwd_DriverID = Driver_ID d, dwd_Distance = 0\<rparr>)
                                (filter (\<lambda>d. Driver_CurrentLat d \<noteq> None
                                              \<and> Driver_CurrentLng d \<noteq> None) dbDrivers)))
          else Inr nearbyDrivers)"

text \<open>
  The loop that creates the offers; \<open>uuids i\<close> is the identifier drawn in iteration
  \<open>i\<close>. A failed \<open>offerRepo.Create\<close> is logged and the loop goes on.
\<close>

fun offer_loop ::
  "faults \<Rightarrow> (nat \<Rightarrow> string) \<Rightarrow> time \<Rightarrow> Ride \<Rightarrow> nat \<Rightarrow> ScoredDriver list \<Rightarrow> DB \<Rightarrow> DB" where
  "offer_loop fl uuids now ride i [] db = db"
| "offer_loop fl uuids now ride i (driver # rest) db =
     (let offer = \<lparr>Offer_ID = [], Offer_RideID = Ride_ID ride,
                   Offer_DriverID = sd_DriverID driver, Offer_Status = [],
                   Offer_OfferedAt = 0, Offer_RespondedAt = None,
                   Offer_ExpiresAt = now + defaultOfferTimeout\<rparr>
      in case offerRepo_Create fl (uuids i) now db offer of
           (offer', Inl e) \<Rightarrow> offer_loop fl uuids now ride (Suc i) rest db
         | (offer', Inr db1) \<Rightarrow> offer_loop fl uuids now ride (Suc i) rest db1)"

definition FindAndOfferDrivers ::
  "((ScoredDriver \<Rightarrow> ScoredDriver \<Rightarrow> bool) \<Rightarrow> ScoredDriver list \<Rightarrow> ScoredDriver list)
     \<Rightarrow> faults \<Rightarrow> (string \<Rightarrow> real option) \<Rightarrow> (nat \<Rightarrow> string) \<Rightarrow> time \<Rightarrow> DB \<Rightarrow> Cache \<Rightarrow> Ride
     \<Rightarrow> DB \<times> err option" where
  "FindAndOfferDrivers sort_Slice fl parseFloat uuids now db c ride =
     (case find_candidates fl now db c ride of
        Inl (db1, e) \<Rightarrow> (db1, Some e)
      | Inr nearbyDrivers \<Rightarrow>
          (let scoredDrivers = scoreDrivers sort_Slice fl parseFloat db c nearbyDrivers ride
           in if length scoredDrivers = 0 then (db, Some ErrNoDriversAvailable)
              else let maxOffers = (if length scoredDrivers < 3 then length scoredDrivers else 3)
                   in (offer_loop fl uuids now ride 0 (take maxOffers scoredDrivers) db, None)))"


section \<open>Middleware\<close>

record HttpRequest =
  Http_Method :: string
  Http_Path :: string
  Http_RemoteAddr :: string
  Http_Header :: "string \<rightharpoonup> string"
  Http_Body :: string

record HttpResponse =
  Resp_StatusCode :: nat
  Resp_Header :: "string \<rightharpoonup> string"
  Resp_Body :: string

text \<open>\<open>r.Header.Get(name)\<close>: the empty string when the header is absent.\<close>

definition Header_Get :: "HttpRequest \<Rightarrow> string \<Rightarrow> string" where
  "Header_Get r name = (case Http_Header r name of None \<Rightarrow> [] | Some v \<Rightarrow> v)"

text \<open>
  \<open>json.NewEncoder(w).Encode\<close> of the two-entry error map: keys in sorted order, a
  newline at the end.
\<close>

definition json_quote :: "string \<Rightarrow> string" where
  "json_quote x = [CHR 0x22] @ x @ [CHR 0x22]"

definition json_error :: "string \<Rightarrow> string \<Rightarrow> string" where
  "json_error code message =
     ''{'' @ json_quote ''error'' @ '':'' @ json_quote code @ '',''
       @ json_quote ''message'' @ '':'' @ json_quote message @ ''}'' @ [CHR 0x0A]"

subsection \<open>Rate limiter\<close>

text \<open>
  A key of the cache server holds a counter and, when it has a time to live, the instant
  it expires at. \<open>INCR\<close> creates a missing (or expired) key with value 1 and no time to
  live, and otherwise adds one and leaves the time to live alone; \<open>EXPIRE\<close> sets the
  time to live of an existing key.
\<close>

type_synonym counters = "string \<rightharpoonup> int \<times> time option"

definition live :: "time \<Rightarrow> counters \<Rightarrow> string \<Rightarrow> (int \<times> time option) option" where
  "live now st k =
     (case st k of
        None \<Rightarrow> None
      | Some (n, None) \<Rightarrow> Some (n, None)
      | Some (n, Some t) \<Rightarrow> if now < t then Some (n, Some t) else None)"

definition redis_Incr :: "time \<Rightarrow> counters \<Rightarrow> string \<Rightarrow> counters \<times> int" where
  "redis_Incr now st k =
     (case live now st k of
        None \<Rightarrow> (st(k \<mapsto> (1, None)), 1)
      | Some (n, ttl) \<Rightarrow> (st(k \<mapsto> (n + 1, ttl)), n + 1))"

definition redis_Expire :: "time \<Rightarrow> counters \<Rightarrow> string \<Rightarrow> int \<Rightarrow> counters" where
  "redis_Expire now st k window =
     (case live now st k of
        None \<Rightarrow> st
      | Some (n, ttl) \<Rightarrow> st(k \<mapsto> (n, Some (now + window))))"

record RateLimiter =
  rl_requests :: int
  rl_window :: int

definition isAllowed ::
  "RateLimiter \<Rightarrow> faults \<Rightarrow> time \<Rightarrow> counters \<Rightarrow> string \<Rightarrow> counters \<times> (bool \<times> int \<times> err option)" where
  "isAllowed rl fl now st k =
     (if fl ''pipe.Exec'' then (st, (True, rl_requests rl, Some ErrCache))
      else let (st1, count) = redis_Incr now st k;
               st2 = redis_Expire now st1 k (rl_window rl);
               remaining = rl_requests rl - count;
               remaining' = (if remaining < 0 then 0 else remaining)
           in (st2, (count \<le> rl_requests rl, remaining', None)))"

text \<open>
  \<open>fmt.Sprintf("%d", n)\<close>: the decimal digits of an integer.
\<close>

fun nat_digits :: "nat \<Rightarrow> string" where
  "nat_digits n =
     (if n < 10 then [''0123456789'' ! n]
      else nat_digits (n div 10) @ [''0123456789'' ! (n mod 10)])"

declare nat_digits.simps [simp del]

definition Sprintf_d :: "int \<Rightarrow> string" where
  "Sprintf_d i = (if i < 0 then CHR ''-'' # nat_digits (nat (- i)) else nat_digits (nat i))"

text \<open>
  What the limiter's handler does with a request: it hands the request to the next
  handler, with the headers it has set on the response by then (none when the cache
  server failed), or it answers itself with status 429. The two \<open>X-RateLimit\<close>
  headers are set before the check, so the 429 answer carries them too.
\<close>

datatype limiter_outcome = Next "string \<rightharpoonup> string" | Answered HttpResponse

definition rate_key :: "HttpRequest \<Rightarrow> string" where
  "rate_key r =
     (let clientIP = (if Header_Get r ''X-Forwarded-For'' \<noteq> []
                      then Header_Get r ''X-Forwarded-For'' else Http_RemoteAddr r)
      in ''ratelimit:'' @ clientIP @ '':'' @ Http_Path r)"

definition RateLimiter_Handler ::
  "RateLimiter \<Rightarrow> faults \<Rightarrow> time \<Rightarrow> counters \<Rightarrow> HttpRequest \<Rightarrow> counters \<times> limiter_outcome" where
  "RateLimiter_Handler rl fl now st r =
     (case isAllowed rl fl now st (rate_key r) of
        (st1, (allowed, remaining, Some e)) \<Rightarrow> (st1, Next Map.empty)
      | (st1, (allowed, remaining, None)) \<Rightarrow>
          let header = [''X-RateLimit-Limit'' \<mapsto> Sprintf_d (rl_requests rl),
                        ''X-RateLimit-Remaining'' \<mapsto> Sprintf_d remaining]
          in if \<not> allowed
             then (st1, Answered \<lparr>Resp_StatusCode = 429,
                                   Resp_Header = header(''Content-Type'' \<mapsto> ''application/json''),
                                   Resp_Body = json_error ''rate_limit_exceeded''
                                                 ''too many requests, please try again later''\<rparr>)
             else (st1, Next header))"

text \<open>
  A client that sends the same request every \<open>gap\<close> nanoseconds, the first at instant
  0, to a cache server that starts with no counters: \<open>paced rl r gap n\<close> is the
  counters after its first \<open>n\<close> requests, so request number \<open>n + 1\<close> is handled at
  instant \<open>n \<cdot> gap\<close> on \<open>paced rl r gap n\<close>.
\<close>

primrec paced :: "RateLimiter \<Rightarrow> HttpRequest \<Rightarrow> int \<Rightarrow> nat \<Rightarrow> counters" where
  "paced rl r gap 0 = Map.empty"
| "paced rl r gap (Suc n) =
     fst (RateLimiter_Handler rl no_faults (int n * gap) (paced rl r gap n) r)"

subsection \<open>Idempotency middleware\<close>









text \<open>The value a counter has after \<open>INCR\<close> at time \<open>now\<close>.\<close>

definition post_count :: "time \<Rightarrow> counters \<Rightarrow> string \<Rightarrow> int" where
  "post_count now st k = (case live now st k of None \<Rightarrow> 1 | Some (n, ttl) \<Rightarrow> n + 1)"

definition rejected_429 :: "limiter_outcome \<Rightarrow> bool" where
  "rejected_429 out =
     (case out of
        Next h \<Rightarrow> False
      | Answered resp \<Rightarrow>
          Resp_StatusCode resp = 429
          \<and> Resp_Body resp = json_error ''rate_limit_exceeded''
                               ''too many requests, please try again later'')"

text \<open>
  The limiter as the claim describes it: \<open>INCR\<close>, then the time to live is set to the
  window length only when the key has none; the request is refused when the count after
  the increment exceeds the limit. \<open>claimed_paced\<close> is the counters of that limiter
  after the first \<open>n\<close> requests of the paced client.
\<close>

definition claimed_Expire :: "time \<Rightarrow> counters \<Rightarrow> string \<Rightarrow> int \<Rightarrow> counters" where
  "claimed_Expire now st k window =
     (case live now st k of
        None \<Rightarrow> st
      | Some (n, None) \<Rightarrow> st(k \<mapsto> (n, Some (now + window)))
      | Some (n, Some t) \<Rightarrow> st)"

definition claimed_limiter :: "RateLimiter \<Rightarrow> time \<Rightarrow> counters \<Rightarrow> string \<Rightarrow> counters \<times> bool" where
  "claimed_limiter rl now st k =
     (let (st1, count) = redis_Incr now st k
      in (claimed_Expire now st1 k (rl_window rl), count \<le> rl_requests rl))"

primrec claimed_paced :: "RateLimiter \<Rightarrow> HttpRequest \<Rightarrow> int \<Rightarrow> nat \<Rightarrow> counters" where
  "claimed_paced rl r gap 0 = Map.empty"
| "claimed_paced rl r gap (Suc n) =
     fst (claimed_limiter rl (int n * gap) (claimed_paced rl r gap n) (rate_key r))"

text \<open>The four updates of an acceptance, taken together.\<close>

definition accept_updates :: "time \<Rightarrow> string \<Rightarrow> string \<Rightarrow> string \<Rightarrow> DB \<Rightarrow> DB" where
  "accept_updates now driverID offerID rideID db =
     exec_expire_pending now rideID
       (exec_driver_busy now driverID
          (exec_assign_driver now driverID rideID
             (exec_accept_offer now offerID db)))"

text \<open>
  The failure an acceptance must answer with, in the specification's order and taxonomy
  (code and HTTP status), reading ``expired'' as \<open>expiresAt < now\<close>: the offer is
  absent, belongs to another driver, names another ride, has expired, is no longer
  pending; then the ride is absent, or is no longer matching. \<open>None\<close> when every
  check passes.
\<close>

definition accept_failure ::
  "time \<Rightarrow> DB \<Rightarrow> string \<Rightarrow> AcceptRideRequest \<Rightarrow> (string \<times> nat) option" where
  "accept_failure now db driverID req =
     (case find (\<lambda>ofr. Offer_ID ofr = Accept_OfferID req) (ride_offers db) of
        None \<Rightarrow> Some (''not_found'', 404)
      | Some offer \<Rightarrow>
          if Offer_DriverID offer \<noteq> driverID then Some (''unauthorized'', 401)
          else if Offer_RideID offer \<noteq> Accept_RideID req then Some (''bad_request'', 400)
          else if Offer_ExpiresAt offer < now then Some (''offer_expired'', 410)
          else if Offer_Status offer \<noteq> ''pending'' then Some (''bad_request'', 400)
          else (case find (\<lambda>r. Ride_ID r = Accept_RideID req) (rides db) of
                  None \<Rightarrow> Some (''not_found'', 404)
                | Some ride \<Rightarrow>
                    if Ride_Status ride \<noteq> ''matching'' then Some (''ride_already_assigned'', 409)
                    else None))"

text \<open>The code and HTTP status of a result that is an API error.\<close>

definition api_failure :: "err + 'a \<Rightarrow> (string \<times> nat) option" where
  "api_failure res =
     (case res of
        Inl (ApiErr e) \<Rightarrow> Some (Code e, StatusCode e)
      | Inl _ \<Rightarrow> None
      | Inr _ \<Rightarrow> None)"





definition insert_refused :: "faults \<Rightarrow> DB \<Rightarrow> ScoredDriver \<Rightarrow> bool" where
  "insert_refused fl db d \<longleftrightarrow>
     fl (''offerRepo.Create:'' @ sd_DriverID d) \<or> sd_DriverID d \<notin> Driver_ID ` set (drivers db)"

section \<open>Serial runs of the dispatch core\<close>

text \<open>
  The states the services bring the store and the cache to when their calls run one after
  the other, none starting before the one before it has returned, from a store with no
  rides and no offers. The rule \<open>other\<close> stands for everything that leaves the tables
  \<open>rides\<close> and \<open>ride_offers\<close> alone: the user and driver services, pausing and
  resuming a trip, and the cache traffic of location updates. Calls that overlap in time
  are not runs of this relation.
\<close>

inductive serial :: "DB \<times> Cache \<Rightarrow> bool" where
  init: "rides db = [] \<Longrightarrow> ride_offers db = [] \<Longrightarrow> serial (db, c)"
| other: "serial (db, c) \<Longrightarrow> rides db' = rides db \<Longrightarrow> ride_offers db' = ride_offers db
           \<Longrightarrow> serial (db', c')"
| create: "serial (db, c) \<Longrightarrow> CreateRide fl uuid now db c req k = (db', res)
           \<Longrightarrow> serial (db', c)"
| cancel: "serial (db, c) \<Longrightarrow> CancelRide fl now db ident creq = (db', e)
           \<Longrightarrow> serial (db', c)"
| update_status: "serial (db, c) \<Longrightarrow> UpdateRideStatus fl now db ident status = (db', e)
           \<Longrightarrow> serial (db', c)"
| start_trip: "serial (db, c) \<Longrightarrow> StartTrip fl uuid now db rideID = (db', tres)
           \<Longrightarrow> serial (db', c)"
| end_trip: "serial (db, c) \<Longrightarrow> EndTrip fl now db c tripID ereq = ((db', c'), tres)
           \<Longrightarrow> serial (db', c')"
| matching: "serial (db, c)
           \<Longrightarrow> FindAndOfferDrivers sort_Slice fl parseFloat uuids now db c ride = (db', e)
           \<Longrightarrow> serial (db', c)"
| accept: "serial (db, c) \<Longrightarrow> AcceptRide fl now1 now db c driverID areq = ((db', c'), res)
           \<Longrightarrow> serial (db', c')"
| decline: "serial (db, c) \<Longrightarrow> DeclineRide fl now db db driverID offerID = (db', e)
           \<Longrightarrow> serial (db', c)"

definition accepted_offers :: "DB \<Rightarrow> string \<Rightarrow> RideOffer list" where
  "accepted_offers db rideID =
     filter (\<lambda>ofr. Offer_RideID ofr = rideID \<and> Offer_Status ofr = OfferStatusAccepted)
       (ride_offers db)"

text \<open>
  The insertion sort that \<open>sort.Slice\<close> runs on a slice of at most twelve elements:
  each element in turn is swapped toward the front while it is \<open>lt\<close> than its
  predecessor. \<open>sift\<close> works on the sorted prefix in reverse (nearest element first).
  It serves as a concrete sorting function in the examples.
\<close>

fun sift :: "('a \<Rightarrow> 'a \<Rightarrow> bool) \<Rightarrow> 'a \<Rightarrow> 'a list \<Rightarrow> 'a list" where
  "sift lt x [] = [x]"
| "sift lt x (y # ys) = (if lt x y then y # sift lt x ys else x # y # ys)"

definition insertionSort :: "('a \<Rightarrow> 'a \<Rightarrow> bool) \<Rightarrow> 'a list \<Rightarrow> 'a list" where
  "insertionSort lt xs = rev (foldl (\<lambda>acc x. sift lt x acc) [] xs)"


text \<open>
  The accepted offers of a ride among a list of offers, and the invariant of the two
  tables: offer and ride identifiers are unique, every accepted offer belongs to a ride
  that has a driver, and every ride that has a driver has exactly one accepted offer and
  has left \<open>pending\<close> and \<open>matching\<close>.
\<close>

definition accepted_in :: "RideOffer list \<Rightarrow> string \<Rightarrow> RideOffer list" where
  "accepted_in offers rideID =
     filter (\<lambda>ofr. Offer_RideID ofr = rideID \<and> Offer_Status ofr = OfferStatusAccepted) offers"

definition offer_inv :: "Ride list \<Rightarrow> RideOffer list \<Rightarrow> bool" where
  "offer_inv rs offers \<longleftrightarrow>
     distinct (map Offer_ID offers) \<and> distinct (map Ride_ID rs)
     \<and> (\<forall>ofr \<in> set offers. Offer_Status ofr = OfferStatusAccepted \<longrightarrow>
           (\<exists>r \<in> set rs. Ride_ID r = Offer_RideID ofr \<and> Ride_DriverID r \<noteq> None))
     \<and> (\<forall>r \<in> set rs. Ride_DriverID r \<noteq> None \<longrightarrow>
           length (accepted_in offers (Ride_ID r)) = 1
           \<and> Ride_Status r \<noteq> RideStatusPending \<and> Ride_Status r \<noteq> RideStatusMatching)"

definition db_inv :: "DB \<Rightarrow> bool" where
  "db_inv db \<longleftrightarrow> offer_inv (rides db) (ride_offers db)"

section \<open>Example states\<close>

definition ex_user :: User where
  "ex_user = \<lparr>User_ID = ''u1'', User_Phone = ''9000000001'', User_Name = ''Asha'',
               User_Email = None, User_Rating = 5, User_CreatedAt = 0, User_UpdatedAt = 0\<rparr>"

definition ex_driver :: "string \<Rightarrow> string \<Rightarrow> Driver" where
  "ex_driver ident status =
     \<lparr>Driver_ID = ident, Driver_Phone = ''9100000000'', Driver_Name = ''Ravi'',
      Driver_Email = None, Driver_LicenseNumber = ''KA01'', Driver_VehicleType = ''sedan'',
      Driver_VehicleNumber = ''KA01AB1234'', Driver_Status = status, Driver_Rating = 5,
      Driver_TotalTrips = 0, Driver_CurrentLat = Some 12, Driver_CurrentLng = Some 77,
      Driver_CreatedAt = 0, Driver_UpdatedAt = 0\<rparr>"

definition ex_req :: CreateRideRequest where
  "ex_req = \<lparr>Req_UserID = ''u1'',
              Req_Pickup = \<lparr>Lat = 12, Lng = 77, Address = []\<rparr>,
              Req_Dropoff = \<lparr>Lat = 12, Lng = 77, Address = []\<rparr>,
              Req_VehicleType = ''sedan'', Req_PaymentMethod = ''cash''\<rparr>"

definition ex_ride :: "string \<Rightarrow> string \<Rightarrow> string option \<Rightarrow> Ride" where
  "ex_ride ident status driver =
     (new_ride ex_req [] 115 1 0 5)
       \<lparr>Ride_ID := ident, Ride_Status := status, Ride_DriverID := driver\<rparr>"

definition ex_offer :: "string \<Rightarrow> string \<Rightarrow> string \<Rightarrow> string \<Rightarrow> time \<Rightarrow> RideOffer" where
  "ex_offer ident rideID driverID status expires =
     \<lparr>Offer_ID = ident, Offer_RideID = rideID, Offer_DriverID = driverID,
      Offer_Status = status, Offer_OfferedAt = 0, Offer_RespondedAt = None,
      Offer_ExpiresAt = expires\<rparr>"

text \<open>A store with one rider and nothing else, and a cache with no driver in it.\<close>

definition ex_db_fresh :: DB where
  "ex_db_fresh = \<lparr>users = [ex_user], drivers = [], rides = [], trips = [], ride_offers = []\<rparr>"

definition ex_cache_empty :: Cache where
  "ex_cache_empty = \<lparr>Cache_GeoRadius = (\<lambda>_ _ _ _. []), Cache_Hashes = (\<lambda>_. Map.empty),
                      Cache_Strings = Map.empty\<rparr>"

text \<open>A store in which the driver of ride \<open>r1\<close> has arrived and no trip exists.\<close>

definition ex_db_arrived :: DB where
  "ex_db_arrived =
     \<lparr>users = [ex_user], drivers = [ex_driver ''d1'' ''busy''],
      rides = [ex_ride ''r1'' ''driver_arrived'' (Some ''d1'')], trips = [], ride_offers = []\<rparr>"

text \<open>Requests, a rate limiter and the middleware's keys for the examples.\<close>

definition ex_http :: HttpRequest where
  "ex_http = \<lparr>Http_Method = ''POST'', Http_Path = ''/v1/rides'',
               Http_RemoteAddr = ''10.0.0.7:5555'',
               Http_Header = [''Idempotency-Key'' \<mapsto> ''k1''], Http_Body = ''body-a''\<rparr>"

definition ex_limiter :: RateLimiter where
  "ex_limiter = \<lparr>rl_requests = 100, rl_window = 60 * Second\<rparr>"

definition ex_counters :: counters where
  "ex_counters = [''ratelimit:10.0.0.7:5555:/v1/rides'' \<mapsto> (1, Some (60 * Second))]"






text \<open>
  A store in which ride \<open>r1\<close> is matching and two drivers hold pending offers for it,
  both expiring at instant 100; and the request of driver \<open>d1\<close> to accept offer \<open>o1\<close>.
\<close>

definition ex_db_matching :: DB where
  "ex_db_matching =
     \<lparr>users = [ex_user],
      drivers = [ex_driver ''d1'' ''online'', ex_driver ''d2'' ''online''],
      rides = [ex_ride ''r1'' ''matching'' None], trips = [],
      ride_offers = [ex_offer ''o1'' ''r1'' ''d1'' ''pending'' 100,
                     ex_offer ''o2'' ''r1'' ''d2'' ''pending'' 100]\<rparr>"

definition ex_accept :: AcceptRideRequest where
  "ex_accept = \<lparr>Accept_RideID = ''r1'', Accept_OfferID = ''o1''\<rparr>"

text \<open>
  A cache whose spatial index answers \<open>near\<close> for sedans and in which every driver is
  online with rating 5.0 and no active ride; a rating parser; the identifiers drawn for
  new offers; and a store with four online drivers and ride \<open>r1\<close> matching, no offers
  yet.
\<close>

definition ex_cache_with :: "(string \<times> real) list \<Rightarrow> Cache" where
  "ex_cache_with near =
     \<lparr>Cache_GeoRadius =
        (\<lambda>k lng lat radius. if k = ''drivers:locations:sedan'' then near else []),
      Cache_Hashes = (\<lambda>k. [''status'' \<mapsto> ''online'', ''vehicle_type'' \<mapsto> ''sedan'',
                            ''rating'' \<mapsto> ''5.0'']),
      Cache_Strings = Map.empty\<rparr>"

definition ex_parse :: "string \<Rightarrow> real option" where
  "ex_parse s = (if s = ''5.0'' then Some 5 else if s = ''4.0'' then Some 4 else None)"

definition ex_uuids :: "nat \<Rightarrow> string" where
  "ex_uuids i =
     (if i = 0 then ''o1'' else if i = 1 then ''o2'' else if i = 2 then ''o3'' else ''o4'')"

definition ex_db_open :: DB where
  "ex_db_open =
     \<lparr>users = [ex_user],
      drivers = [ex_driver ''a'' ''online'', ex_driver ''b'' ''online'',
                 ex_driver ''c'' ''online'', ex_driver ''e'' ''online''],
      rides = [ex_ride ''r1'' ''matching'' None], trips = [], ride_offers = []\<rparr>"

definition ex_near :: "(string \<times> real) list" where
  "ex_near = [(''b'', 1), (''a'', 1), (''c'', 2), (''e'', 3)]"

text \<open>
  The stores of a run: four idle drivers and no ride; then (see \<open>ex_db_open\<close>) ride
  \<open>r1\<close> created; then offers to the three best drivers; then \<open>b\<close> has accepted.
\<close>

definition ex_db_idle :: DB where
  "ex_db_idle =
     \<lparr>users = [ex_user],
      drivers = [ex_driver ''a'' ''online'', ex_driver ''b'' ''online'',
                 ex_driver ''c'' ''online'', ex_driver ''e'' ''online''],
      rides = [], trips = [], ride_offers = []\<rparr>"

definition ex_db_offered :: DB where
  "ex_db_offered =
     ex_db_open\<lparr>ride_offers :=
       [(ex_offer ''o1'' ''r1'' ''b'' ''pending'' (1000 + 15 * Second))\<lparr>Offer_OfferedAt := 1000\<rparr>,
        (ex_offer ''o2'' ''r1'' ''a'' ''pending'' (1000 + 15 * Second))\<lparr>Offer_OfferedAt := 1000\<rparr>,
        (ex_offer ''o3'' ''r1'' ''c'' ''pending'' (1000 + 15 * Second))\<lparr>Offer_OfferedAt := 1000\<rparr>]\<rparr>"

definition ex_db_assigned :: DB where
  "ex_db_assigned =
     \<lparr>users = [ex_user],
      drivers = [ex_driver ''a'' ''online'',
                 (ex_driver ''b'' ''busy'')\<lparr>Driver_UpdatedAt := 2000\<rparr>,
                 ex_driver ''c'' ''online'', ex_driver ''e'' ''online''],
      rides = [(ex_ride ''r1'' ''driver_assigned'' (Some ''b''))\<lparr>Ride_UpdatedAt := 2000\<rparr>],
      trips = [],
      ride_offers =
       [(ex_offer ''o1'' ''r1'' ''b'' ''accepted'' (1000 + 15 * Second))
          \<lparr>Offer_OfferedAt := 1000, Offer_RespondedAt := Some 2000\<rparr>,
        (ex_offer ''o2'' ''r1'' ''a'' ''expired'' (1000 + 15 * Second))
          \<lparr>Offer_OfferedAt := 1000, Offer_RespondedAt := Some 2000\<rparr>,
        (ex_offer ''o3'' ''r1'' ''c'' ''expired'' (1000 + 15 * Second))
          \<lparr>Offer_OfferedAt := 1000, Offer_RespondedAt := Some 2000\<rparr>]\<rparr>"




section \<open>Auxiliary facts\<close>

lemmas status_defs =
  RideStatusPending_def RideStatusMatching_def RideStatusDriverAssigned_def
  RideStatusDriverArrived_def RideStatusInProgress_def RideStatusCompleted_def
  RideStatusCancelled_def OfferStatusPending_def OfferStatusAccepted_def
  OfferStatusDeclined_def OfferStatusExpired_def TripStatusStarted_def TripStatusPaused_def
  TripStatusCompleted_def TripStatusCancelled_def DriverStatusOffline_def
  DriverStatusOnline_def DriverStatusBusy_def VehicleTypeAuto_def VehicleTypeMini_def
  VehicleTypeSedan_def VehicleTypeSUV_def


lemmas repo_defs =
  userRepo_GetByID_def rideRepo_Create_def rideRepo_GetByID_def rideRepo_GetByIdempotencyKey_def
  rideRepo_UpdateStatus_def rideRepo_Cancel_def rideRepo_GetActiveRideByUserID_def
  driverRepo_UpdateStatus_def driverRepo_GetOnlineDriversByVehicleType_def tripRepo_Create_def
  tripRepo_GetByRideID_def offerRepo_Create_def offerRepo_GetByID_def
  offerRepo_GetByRideAndDriver_def offerRepo_UpdateStatus_def tripRepo_GetByID_def
  tripRepo_EndTrip_def driverRepo_IncrementTotalTrips_def offerRepo_GetByIDForUpdate_def
  rideRepo_GetByIDForUpdate_def

lemma no_faults_simp [simp]: "no_faults x = False"
  by (simp add: no_faults_def)

lemmas ex_defs =
  ex_user_def ex_driver_def ex_req_def ex_ride_def ex_offer_def new_ride_def

section \<open>Fare computation\<close>





section \<open>Ride creation and the surge multiplier\<close>

lemma rideRepo_Create_row:
  "rideRepo_Create fl uuid now db ride = (ride', Inr db1) \<Longrightarrow>
     rides db1 = rides db @ [ride'] \<and> Ride_SurgeMultiplier ride' = 1
       \<and> Ride_ID ride' \<notin> Ride_ID ` set (rides db) \<and> Ride_Status ride' = RideStatusPending
       \<and> Ride_DriverID ride' = Ride_DriverID ride
       \<and> users db1 = users db \<and> drivers db1 = drivers db \<and> trips db1 = trips db
       \<and> ride_offers db1 = ride_offers db"
  unfolding rideRepo_Create_def Let_def
  by (auto split: if_splits)

lemma map_upd_fresh:
  "ident \<notin> Ride_ID ` set rs \<Longrightarrow> map (\<lambda>r. if Ride_ID r = ident then f r else r) rs = rs"
  by (induction rs) auto

text \<open>
  Whatever surge \<open>CreateRide\<close> estimated, the row it inserts and the ride it returns
  carry the multiplier 1: \<open>rideRepo.Create\<close> overwrites the field before the insert.
\<close>

lemma CreateRide_persists_surge_one:
  assumes "CreateRide fl uuid now db c req k = (db', Inr ride)" and "db' \<noteq> db"
  shows "\<exists>row. rides db' = rides db @ [row] \<and> Ride_SurgeMultiplier row = 1
            \<and> Ride_SurgeMultiplier ride = 1"
proof -
  from assms obtain rd ride' db1 where
    c: "rideRepo_Create fl uuid now db rd = (ride', Inr db1)"
    and d: "db' = (case rideRepo_UpdateStatus fl now db1 (Ride_ID ride') RideStatusMatching of
                     Inl e \<Rightarrow> db1 | Inr d \<Rightarrow> d)"
    and r: "ride = ride'\<lparr>Ride_Status := RideStatusMatching\<rparr>"
    unfolding CreateRide_def Let_def
    by (auto split: sum.splits option.splits if_splits prod.splits)
  from rideRepo_Create_row[OF c] show ?thesis
    using d r by (auto simp: rideRepo_UpdateStatus_def map_upd_fresh split: sum.splits if_splits)
qed

text \<open>
  C1 (the code departs from the claim). With no driver near the pickup the estimated
  surge is \<open>CalculateSurge(10, 0) = 2\<close>, and the fare estimate is computed with it, yet
  the row that \<open>CreateRide\<close> persists, and the ride it returns, carry the multiplier 1.
\<close>

theorem CreateRide_drops_estimated_surge:
  "estimated_surge no_faults ex_cache_empty ex_req = 2
   \<and> (case CreateRide no_faults ''r1'' 100 ex_db_fresh ex_cache_empty ex_req [] of
        (db', res) \<Rightarrow>
          map Ride_SurgeMultiplier (rides db') = [1]
          \<and> map Ride_EstimatedFare (rides db') = [Some 115]
          \<and> (case res of Inl e \<Rightarrow> False | Inr ride \<Rightarrow> Ride_SurgeMultiplier ride = 1))"
proof -
  have d: "EstimateDistance 12 77 12 77 = 0"
    by (simp add: EstimateDistance_def haversineDistance_def math_Atan2_def round_f_def
          math_Round_def)
  have n: "GetNearbyDrivers no_faults ex_cache_empty 12 77 2 ''sedan'' = ([], None)"
    by (simp add: GetNearbyDrivers_def ex_cache_empty_def)
  have f: "Total (CalculateEstimatedFare ''sedan'' 0 5 2) = 115"
    by (simp add: CalculateEstimatedFare_def calculateFare_def fareConfigs_def status_defs
          Let_def round_f_def math_Round_def)
  have s: "CalculateSurge 10 0 = 2"
    by (simp add: CalculateSurge_def)
  show ?thesis
    by (simp add: estimated_surge_def CreateRide_def repo_defs ex_defs ex_db_fresh_def n d f s
          EstimateDuration_def Let_def status_defs)
qed

section \<open>Starting a trip\<close>

text \<open>
  C2 (the code departs from the claim). On a ride whose driver has arrived the first
  \<open>StartTrip\<close> creates a trip with status \<open>started\<close> and start time \<open>now\<close> and moves
  the ride to \<open>in_progress\<close>; a second \<open>StartTrip\<close> on the same ride is then refused
  with \<open>bad_request\<close> by the status check, before the existing trip is looked up.
\<close>

theorem StartTrip_twice_is_refused:
  "(case StartTrip no_faults ''t1'' 100 ex_db_arrived ''r1'' of
      (db1, res) \<Rightarrow>
        (case res of
           Inl e \<Rightarrow> False
         | Inr trip \<Rightarrow> Trip_Status trip = ''started'' \<and> Trip_StartTime trip = Some 100
                       \<and> map Trip_ID (trips db1) = [''t1''])
        \<and> map Ride_Status (rides db1) = [''in_progress'']
        \<and> StartTrip no_faults ''t2'' 200 db1 ''r1''
             = (db1, Inl (ApiErr (BadRequest ''driver must arrive before starting trip''))))"
  by (simp add: StartTrip_def repo_defs ex_defs ex_db_arrived_def Let_def status_defs)

section \<open>Idempotency middleware\<close>



section \<open>Rate limiter\<close>

lemma rate_key_ex_http: "rate_key ex_http = ''ratelimit:10.0.0.7:5555:/v1/rides''"
  by (simp add: rate_key_def ex_http_def Header_Get_def)

text \<open>
  What one request does to the counters: the count goes up by one and the key's time to
  live is set to the window length, whether or not the key already had one; the request
  is answered with 429 \<open>rate_limit_exceeded\<close> exactly when the count after the
  increment exceeds the limit, and is otherwise handed on. Both outcomes carry the limit
  and the remaining budget as headers.
\<close>

lemma Sprintf_d_0: "Sprintf_d 0 = ''0''"
  by (simp add: Sprintf_d_def nat_digits.simps)

lemma RateLimiter_Handler_counters:
  "\<not> fl ''pipe.Exec'' \<Longrightarrow>
     fst (RateLimiter_Handler rl fl now st r)
       = st(rate_key r \<mapsto> (post_count now st (rate_key r), Some (now + rl_window rl)))"
  by (auto simp: RateLimiter_Handler_def isAllowed_def redis_Incr_def redis_Expire_def
        live_def Let_def post_count_def split: option.splits prod.splits)

lemma RateLimiter_Handler_outcome:
  "\<not> fl ''pipe.Exec'' \<Longrightarrow>
     snd (RateLimiter_Handler rl fl now st r)
       = (if post_count now st (rate_key r) > rl_requests rl
          then Answered \<lparr>Resp_StatusCode = 429,
                          Resp_Header = [''X-RateLimit-Limit'' \<mapsto> Sprintf_d (rl_requests rl),
                                         ''X-RateLimit-Remaining'' \<mapsto> ''0'',
                                         ''Content-Type'' \<mapsto> ''application/json''],
                          Resp_Body = json_error ''rate_limit_exceeded''
                                        ''too many requests, please try again later''\<rparr>
          else Next [''X-RateLimit-Limit'' \<mapsto> Sprintf_d (rl_requests rl),
                     ''X-RateLimit-Remaining'' \<mapsto>
                        Sprintf_d (rl_requests rl - post_count now st (rate_key r))])"
  by (auto simp: RateLimiter_Handler_def isAllowed_def redis_Incr_def redis_Expire_def
        live_def Let_def post_count_def Sprintf_d_0 split: option.splits prod.splits)

lemma RateLimiter_Handler_rejects:
  "\<not> fl ''pipe.Exec'' \<Longrightarrow>
     rejected_429 (snd (RateLimiter_Handler rl fl now st r))
       \<longleftrightarrow> post_count now st (rate_key r) > rl_requests rl"
  by (simp add: RateLimiter_Handler_outcome rejected_429_def)

text \<open>
  A key that already has a time to live gets a new one: the counter of the example
  expires at second 60, and a request at second 30 moves the expiry to second 90.
\<close>

lemma RateLimiter_ttl_reset:
  "live (30 * Second) ex_counters (rate_key ex_http) = Some (1, Some (60 * Second))
   \<and> fst (RateLimiter_Handler ex_limiter no_faults (30 * Second) ex_counters ex_http)
        (rate_key ex_http) = Some (2, Some (90 * Second))"
  by (simp add: rate_key_ex_http RateLimiter_Handler_def isAllowed_def redis_Incr_def
        redis_Expire_def live_def ex_counters_def ex_limiter_def Second_def Let_def)

lemma paced_counters:
  assumes "0 < gap" and "gap < rl_window rl"
  shows "paced rl r gap (Suc n)
           = [rate_key r \<mapsto> (int (Suc n), Some (int n * gap + rl_window rl))]"
proof (induction n)
  case 0
  show ?case
    using RateLimiter_Handler_counters[of no_faults rl 0 Map.empty r]
    by (simp add: post_count_def live_def)
next
  case (Suc n)
  have l: "live (int (Suc n) * gap) (paced rl r gap (Suc n)) (rate_key r)
             = Some (int (Suc n), Some (int n * gap + rl_window rl))"
    unfolding Suc using assms by (simp add: live_def algebra_simps)
  have "paced rl r gap (Suc (Suc n))
          = (paced rl r gap (Suc n))(rate_key r \<mapsto>
               (post_count (int (Suc n) * gap) (paced rl r gap (Suc n)) (rate_key r),
                Some (int (Suc n) * gap + rl_window rl)))"
    using RateLimiter_Handler_counters[of no_faults rl "int (Suc n) * gap"
            "paced rl r gap (Suc n)" r]
    by (simp del: paced.simps add: paced.simps(2)[of rl r gap "Suc n"])
  also have "\<dots> = [rate_key r \<mapsto> (int (Suc (Suc n)), Some (int (Suc n) * gap + rl_window rl))]"
    unfolding post_count_def l unfolding Suc by simp
  finally show ?case .
qed

text \<open>
  The limiter of the claim treats the same client differently: with a window of two gaps
  it never counts beyond 2, since the key expires one window after its first request.
\<close>

lemma claimed_limiter_fresh:
  "fst (claimed_limiter rl now Map.empty k) = [k \<mapsto> (1, Some (now + rl_window rl))]"
  by (simp add: claimed_limiter_def redis_Incr_def claimed_Expire_def live_def)

lemma claimed_limiter_live:
  "now < t \<Longrightarrow>
     fst (claimed_limiter rl now [k \<mapsto> (n, Some t)] k) = [k \<mapsto> (n + 1, Some t)]"
  by (simp add: claimed_limiter_def redis_Incr_def claimed_Expire_def live_def)

lemma claimed_limiter_expired:
  "\<not> now < t \<Longrightarrow>
     fst (claimed_limiter rl now [k \<mapsto> (n, Some t)] k)
       = [k \<mapsto> (1, Some (now + rl_window rl))]"
  by (simp add: claimed_limiter_def redis_Incr_def claimed_Expire_def live_def)

lemma claimed_paced_counters:
  assumes "0 < gap" and "rl_window rl = 2 * gap"
  shows "claimed_paced rl r gap (Suc n)
           = [rate_key r \<mapsto> (if even n then 1 else 2,
                                Some (int (n - n mod 2) * gap + rl_window rl))]"
proof (induction n)
  case 0
  show ?case by (simp add: claimed_limiter_fresh)
next
  case (Suc n)
  have step: "claimed_paced rl r gap (Suc (Suc n))
                = fst (claimed_limiter rl (int (Suc n) * gap) (claimed_paced rl r gap (Suc n))
                         (rate_key r))"
    by (rule claimed_paced.simps(2))
  show ?case
  proof (cases "even n")
    case True
    then have m: "n mod 2 = 0" "Suc n mod 2 = 1" by presburger+
    have "int (Suc n) * gap < int n * gap + rl_window rl"
      using assms by (simp add: algebra_simps)
    then show ?thesis
      unfolding step Suc using True m by (simp add: claimed_limiter_live)
  next
    case False
    then have m: "n mod 2 = 1" "Suc n mod 2 = 0" by presburger+
    from False have n1: "int (n - Suc 0) = int n - 1" by (cases n) auto
    have "\<not> int (Suc n) * gap < int (n - Suc 0) * gap + rl_window rl"
      using assms by (simp add: n1 algebra_simps)
    then show ?thesis
      unfolding step Suc using False m by (simp add: claimed_limiter_expired)
  qed
qed

text \<open>
  C9 (the code departs from the claim). The time to live is set on every request, so the
  window is not fixed: it restarts with each request. A client that sends one request
  every \<open>gap\<close>, with \<open>gap\<close> shorter than the window, never lets its key expire; its
  count grows by one per request for ever, and every request beyond the limit is answered
  with 429 \<open>rate_limit_exceeded\<close>, however slowly the client sends. With the limiter of
  the server (100 requests per minute) a client at two requests per minute is refused
  from its 101st request on.
\<close>

theorem RateLimiter_paced_client_locked_out:
  assumes "0 < gap" and "gap < rl_window rl" and "rl_requests rl < int (Suc n)"
  shows "paced rl r gap (Suc n) (rate_key r)
           = Some (int (Suc n), Some (int n * gap + rl_window rl))
         \<and> rejected_429 (snd (RateLimiter_Handler rl no_faults (int n * gap)
                                 (paced rl r gap n) r))"
proof -
  have a: "paced rl r gap (Suc n) (rate_key r)
             = Some (int (Suc n), Some (int n * gap + rl_window rl))"
    using paced_counters[OF assms(1,2)] by simp
  have "post_count (int n * gap) (paced rl r gap n) (rate_key r) = int (Suc n)"
  proof (cases n)
    case 0
    then show ?thesis by (simp add: post_count_def live_def)
  next
    case (Suc m)
    then show ?thesis
      using assms(1,2) paced_counters[OF assms(1,2), of r m]
      by (simp add: post_count_def live_def algebra_simps)
  qed
  moreover have "rejected_429 (snd (RateLimiter_Handler rl no_faults (int n * gap)
                                      (paced rl r gap n) r))
                  \<longleftrightarrow> post_count (int n * gap) (paced rl r gap n) (rate_key r) > rl_requests rl"
    by (simp add: RateLimiter_Handler_rejects)
  ultimately have b: "rejected_429 (snd (RateLimiter_Handler rl no_faults (int n * gap)
                                 (paced rl r gap n) r))"
    using assms(3) by simp
  from a b show ?thesis by blast
qed

text \<open>
  The theorem at work on the server's limiter (100 requests per window of 60 s) and a
  client that sends every 30 s: its 101st request, at second 3000, finds the count at
  101 and is refused; the limiter of the claim would have counted it as the first of a
  new window.
\<close>

theorem RateLimiter_paced_client_locked_out_witness:
  "paced ex_limiter ex_http (30 * Second) 101 (rate_key ex_http)
     = Some (101, Some (3060 * Second))
   \<and> rejected_429 (snd (RateLimiter_Handler ex_limiter no_faults (3000 * Second)
                           (paced ex_limiter ex_http (30 * Second) 100) ex_http))
   \<and> claimed_paced ex_limiter ex_http (30 * Second) 101 (rate_key ex_http)
       = Some (1, Some (3060 * Second))"
proof -
  have n: "(101::nat) = Suc 100" by simp
  show ?thesis
    unfolding n
    using RateLimiter_paced_client_locked_out[where rl = ex_limiter and gap = "30 * Second"
            and n = 100 and r = ex_http]
      claimed_paced_counters[where rl = ex_limiter and gap = "30 * Second" and n = 100
            and r = ex_http]
    by (simp del: paced.simps claimed_paced.simps add: ex_limiter_def Second_def)
qed

section \<open>The offer protocol\<close>

lemma find_Some_set: "find P xs = Some x \<Longrightarrow> P x \<and> x \<in> set xs"
  by (induction xs) (auto split: if_splits)

lemma AcceptRide_tx_Inr:
  assumes "AcceptRide_tx fl nowE now tx driverID req = Inr (tx', ride)"
  shows "\<exists>offer. find (\<lambda>ofr. Offer_ID ofr = Accept_OfferID req) (ride_offers tx) = Some offer
           \<and> Offer_DriverID offer = driverID \<and> Offer_RideID offer = Accept_RideID req
           \<and> \<not> IsExpired nowE offer \<and> Offer_Status offer = OfferStatusPending
           \<and> find (\<lambda>r. Ride_ID r = Accept_RideID req) (rides tx) = Some ride
           \<and> Ride_Status ride = RideStatusMatching
           \<and> driverID \<in> Driver_ID ` set (drivers tx)
           \<and> tx' = accept_updates now driverID (Accept_OfferID req) (Accept_RideID req) tx"
  using assms
  unfolding AcceptRide_tx_def offerRepo_GetByIDForUpdate_def rideRepo_GetByIDForUpdate_def
    accept_updates_def Let_def
  by (auto split: if_splits option.splits sum.splits dest!: find_Some_set
        simp: exec_accept_offer_def)

text \<open>
  C4 as stated fails at the boundary: an offer that expires at instant 100 and is
  accepted at instant 100 has \<open>expiresAt \<le> now\<close>, yet the acceptance succeeds, because
  \<open>IsExpired\<close> is \<open>time.Now().After(ExpiresAt)\<close>.
\<close>

theorem AcceptRide_expiry_boundary_counterexample:
  "Offer_ExpiresAt (ex_offer ''o1'' ''r1'' ''d1'' ''pending'' 100) \<le> 100
   \<and> api_failure (snd (AcceptRide no_faults 100 100 ex_db_matching ex_cache_empty ''d1''
                         ex_accept)) = None
   \<and> (case snd (AcceptRide no_faults 100 100 ex_db_matching ex_cache_empty ''d1'' ex_accept) of
        Inl e \<Rightarrow> False
      | Inr ride \<Rightarrow> Ride_Status ride = ''driver_assigned'' \<and> Ride_DriverID ride = Some ''d1'')"
  by (simp add: AcceptRide_def AcceptRide_tx_def repo_defs ex_defs ex_db_matching_def
        ex_accept_def ex_cache_empty_def IsExpired_def exec_accept_offer_def
        exec_assign_driver_def exec_driver_busy_def exec_expire_pending_def SetActiveRide_def
        api_failure_def Let_def status_defs)

text \<open>
  C4, amended. When the transaction opens and both locked reads answer, \<open>AcceptRide\<close>
  fails with the specification's taxonomy, its checks in this order: \<open>not_found\<close> if the
  offer is absent; \<open>unauthorized\<close> if the offer's driver differs from the caller;
  \<open>bad_request\<close> if the offer's ride differs from the argument; \<open>offer_expired\<close> if
  \<open>expiresAt < now\<close>; \<open>bad_request\<close> if the offer is not pending; then \<open>not_found\<close>
  if the ride is absent; \<open>ride_already_assigned\<close> if the ride is not matching. When
  every check passes the result is not an API error.
\<close>

theorem AcceptRide_check_order:
  assumes "\<not> fl ''db.BeginTxx''" and "\<not> fl ''offerRepo.GetByIDForUpdate''"
    and "\<not> fl ''rideRepo.GetByIDForUpdate''"
  shows "api_failure (snd (AcceptRide fl nowE now db c driverID req))
           = accept_failure nowE db driverID req"
  using assms
  unfolding AcceptRide_def AcceptRide_tx_def offerRepo_GetByIDForUpdate_def
    rideRepo_GetByIDForUpdate_def accept_failure_def api_failure_def Let_def IsExpired_def
  by (auto split: option.splits simp: NotFound_def Unauthorized_def BadRequest_def
      OfferExpired_def RideAlreadyAssigned_def NewAPIError_def status_defs)

theorem AcceptRide_check_order_witness:
  "api_failure (snd (AcceptRide no_faults 101 101 ex_db_matching ex_cache_empty ''d1''
                       ex_accept)) = Some (''offer_expired'', 410)
   \<and> api_failure (snd (AcceptRide no_faults 100 100 ex_db_matching ex_cache_empty ''d2''
                         ex_accept)) = Some (''unauthorized'', 401)"
  using AcceptRide_check_order[where fl = no_faults and nowE = 101 and now = 101
          and db = ex_db_matching and c = ex_cache_empty and driverID = "''d1''"
          and req = ex_accept]
        AcceptRide_check_order[where fl = no_faults and nowE = 100 and now = 100
          and db = ex_db_matching and c = ex_cache_empty and driverID = "''d2''"
          and req = ex_accept]
  by (simp add: accept_failure_def ex_db_matching_def ex_accept_def ex_offer_def)

text \<open>
  C5. \<open>AcceptRide\<close> is all or nothing: when it returns an error the store and the cache
  are exactly what they were (no offer, ride or driver row is modified), and when it
  succeeds the store is the old one with all four updates applied.
\<close>

theorem AcceptRide_all_or_nothing:
  "(case AcceptRide fl nowE now db c driverID req of
      ((db', c'), Inl e) \<Rightarrow> db' = db \<and> c' = c
    | ((db', c'), Inr ride) \<Rightarrow>
        db' = accept_updates now driverID (Accept_OfferID req) (Accept_RideID req) db)"
proof (cases "AcceptRide_tx fl nowE now db driverID req")
  case (Inl e)
  then show ?thesis by (simp add: AcceptRide_def)
next
  case (Inr p)
  obtain tx ride where p: "p = (tx, ride)" by (cases p)
  from AcceptRide_tx_Inr[OF Inr[unfolded p]] show ?thesis
    using Inr p by (auto simp: AcceptRide_def Let_def)
qed

text \<open>
  The theorem at work: the fourth update fails after the first three were issued, and
  the store is left as it was.
\<close>

theorem AcceptRide_all_or_nothing_witness:
  "AcceptRide (\<lambda>site. site = ''tx.Exec:expire_pending'') 50 50 ex_db_matching ex_cache_empty
       ''d1'' ex_accept
     = ((ex_db_matching, ex_cache_empty), Inl ErrDatabase)"
  using AcceptRide_all_or_nothing[where fl = "\<lambda>site. site = ''tx.Exec:expire_pending''"
          and nowE = 50 and now = 50 and db = ex_db_matching and c = ex_cache_empty
          and driverID = "''d1''" and req = ex_accept]
  by (simp add: AcceptRide_def AcceptRide_tx_def repo_defs ex_defs ex_db_matching_def
        ex_accept_def IsExpired_def exec_accept_offer_def Let_def status_defs)

section \<open>Matching\<close>











text \<open>The running example: four candidates, the first two tied on score and distance.\<close>

lemma ex_candidates:
  "find_candidates no_faults 1000 ex_db_open (ex_cache_with ex_near)
       (ex_ride ''r1'' ''matching'' None)
   = Inr [\<lparr>dwd_DriverID = ''b'', dwd_Distance = 1\<rparr>, \<lparr>dwd_DriverID = ''a'', dwd_Distance = 1\<rparr>,
          \<lparr>dwd_DriverID = ''c'', dwd_Distance = 2\<rparr>, \<lparr>dwd_DriverID = ''e'', dwd_Distance = 3\<rparr>]"
  by (simp add: find_candidates_def GetNearbyDrivers_def GetDriverMeta_def ex_cache_with_def
       ex_near_def map_index_def ex_defs driverLocationKeyPrefix_def defaultMatchRadius_def)

lemma ex_scored:
  "scoreDrivers insertionSort no_faults ex_parse ex_db_open (ex_cache_with ex_near)
       [\<lparr>dwd_DriverID = ''b'', dwd_Distance = 1\<rparr>, \<lparr>dwd_DriverID = ''a'', dwd_Distance = 1\<rparr>,
        \<lparr>dwd_DriverID = ''c'', dwd_Distance = 2\<rparr>, \<lparr>dwd_DriverID = ''e'', dwd_Distance = 3\<rparr>]
       (ex_ride ''r1'' ''matching'' None)
     = [\<lparr>sd_DriverID = ''b'', sd_Score = 115, sd_Distance = 1\<rparr>,
        \<lparr>sd_DriverID = ''a'', sd_Score = 115, sd_Distance = 1\<rparr>,
        \<lparr>sd_DriverID = ''c'', sd_Score = 105, sd_Distance = 2\<rparr>,
        \<lparr>sd_DriverID = ''e'', sd_Score = 95, sd_Distance = 3\<rparr>]"
  by (simp add: scoreDrivers_def insertionSort_def by_score_def offerRepo_GetByRideAndDriver_def
      GetDriverMeta_def GetActiveRide_def ex_cache_with_def ex_db_open_def ex_defs map_index_def
      ParseRating_def ex_parse_def status_defs)


lemma insert_refused_offers [simp]:
  "insert_refused fl (db\<lparr>ride_offers := x\<rparr>) d = insert_refused fl db d"
  by (simp add: insert_refused_def)













section \<open>Single winner\<close>

text \<open>
  The invariant behind the single-winner property, on the tables \<open>rides\<close> and
  \<open>ride_offers\<close>, and the facts that every way of rewriting them preserves it.
\<close>

lemma inv_rides_map:
  assumes inv: "offer_inv rs offers"
    and f: "\<And>r. r \<in> set rs \<Longrightarrow> Ride_ID (f r) = Ride_ID r \<and> Ride_DriverID (f r) = Ride_DriverID r
           \<and> (Ride_DriverID r \<noteq> None \<longrightarrow> Ride_Status (f r) \<noteq> RideStatusPending
                \<and> Ride_Status (f r) \<noteq> RideStatusMatching)"
  shows "offer_inv (map f rs) offers"
proof -
  have ids: "map Ride_ID (map f rs) = map Ride_ID rs"
    using f by simp
  have a: "\<exists>r \<in> set (map f rs). Ride_ID r = Offer_RideID ofr \<and> Ride_DriverID r \<noteq> None"
    if "ofr \<in> set offers" "Offer_Status ofr = OfferStatusAccepted" for ofr
  proof -
    from inv that obtain r where "r \<in> set rs" "Ride_ID r = Offer_RideID ofr" "Ride_DriverID r \<noteq> None"
      unfolding offer_inv_def by blast
    then have "f r \<in> set (map f rs)" "Ride_ID (f r) = Offer_RideID ofr" "Ride_DriverID (f r) \<noteq> None"
      using f[of r] by auto
    then show ?thesis by blast
  qed
  have b: "length (accepted_in offers (Ride_ID r')) = 1
           \<and> Ride_Status r' \<noteq> RideStatusPending \<and> Ride_Status r' \<noteq> RideStatusMatching"
    if "r' \<in> set (map f rs)" "Ride_DriverID r' \<noteq> None" for r'
  proof -
    from that obtain r where r: "r \<in> set rs" "r' = f r" by auto
    with that f[of r] have "Ride_DriverID r \<noteq> None" by simp
    with inv r have "length (accepted_in offers (Ride_ID r)) = 1"
      unfolding offer_inv_def by blast
    then show ?thesis using f[of r] r \<open>Ride_DriverID r \<noteq> None\<close> by simp
  qed
  from inv have "distinct (map Offer_ID offers)" "distinct (map Ride_ID rs)"
    unfolding offer_inv_def by blast+
  then show ?thesis
    unfolding offer_inv_def ids using a b by blast
qed

lemma inv_ride_append:
  assumes inv: "offer_inv rs offers"
    and fresh: "Ride_ID r \<notin> Ride_ID ` set rs" and nodrv: "Ride_DriverID r = None"
  shows "offer_inv (rs @ [r]) offers"
  using assms unfolding offer_inv_def by auto

lemma accepted_in_append_pending:
  "Offer_Status ofr \<noteq> OfferStatusAccepted \<Longrightarrow> accepted_in (offers @ [ofr]) x = accepted_in offers x"
  by (simp add: accepted_in_def)

lemma inv_offer_append:
  assumes inv: "offer_inv rs offers"
    and fresh: "Offer_ID ofr \<notin> Offer_ID ` set offers"
    and pend: "Offer_Status ofr = OfferStatusPending"
  shows "offer_inv rs (offers @ [ofr])"
proof -
  have na: "Offer_Status ofr \<noteq> OfferStatusAccepted"
    using pend by (simp add: status_defs)
  show ?thesis
    using inv fresh na unfolding offer_inv_def
    by (auto simp: accepted_in_append_pending)
qed

lemma inv_offers_map:
  assumes inv: "offer_inv rs offers"
    and g: "\<And>ofr. ofr \<in> set offers \<Longrightarrow> Offer_ID (g ofr) = Offer_ID ofr
              \<and> Offer_RideID (g ofr) = Offer_RideID ofr
              \<and> (Offer_Status (g ofr) = OfferStatusAccepted
                   \<longleftrightarrow> Offer_Status ofr = OfferStatusAccepted)"
  shows "offer_inv rs (map g offers)"
proof -
  have ids: "map Offer_ID (map g offers) = map Offer_ID offers"
    using g by simp
  have len: "length (accepted_in (map g offers) x) = length (accepted_in offers x)" for x
  proof -
    have "filter ((\<lambda>ofr. Offer_RideID ofr = x \<and> Offer_Status ofr = OfferStatusAccepted) \<circ> g) offers
          = filter (\<lambda>ofr. Offer_RideID ofr = x \<and> Offer_Status ofr = OfferStatusAccepted) offers"
      by (rule filter_cong) (use g in auto)
    then show ?thesis by (simp add: accepted_in_def filter_map)
  qed
  have a: "\<exists>r \<in> set rs. Ride_ID r = Offer_RideID ofr' \<and> Ride_DriverID r \<noteq> None"
    if "ofr' \<in> set (map g offers)" "Offer_Status ofr' = OfferStatusAccepted" for ofr'
  proof -
    from that obtain ofr where o: "ofr \<in> set offers" "ofr' = g ofr" by auto
    with that g[of ofr] have "Offer_Status ofr = OfferStatusAccepted" by simp
    with inv o obtain r where "r \<in> set rs" "Ride_ID r = Offer_RideID ofr" "Ride_DriverID r \<noteq> None"
      unfolding offer_inv_def by blast
    then show ?thesis using g[of ofr] o by auto
  qed
  from inv have "distinct (map Offer_ID offers)" "distinct (map Ride_ID rs)"
    and r: "\<forall>r \<in> set rs. Ride_DriverID r \<noteq> None \<longrightarrow>
           length (accepted_in offers (Ride_ID r)) = 1
           \<and> Ride_Status r \<noteq> RideStatusPending \<and> Ride_Status r \<noteq> RideStatusMatching"
    unfolding offer_inv_def by blast+
  then show ?thesis
    unfolding offer_inv_def ids len using a by blast
qed


lemma distinct_key_unique:
  "distinct (map f xs) \<Longrightarrow> x \<in> set xs \<Longrightarrow> y \<in> set xs \<Longrightarrow> f x = f y \<Longrightarrow> x = y"
  by (induction xs) (auto simp: image_iff)

lemma distinct_filter_key_length:
  "distinct (map f xs) \<Longrightarrow> x \<in> set xs \<Longrightarrow> length (filter (\<lambda>y. f y = f x) xs) = 1"
proof (induction xs)
  case Nil
  then show ?case by simp
next
  case (Cons a xs)
  show ?case
  proof (cases "f a = f x")
    case True
    with Cons.prems have "\<forall>y \<in> set xs. f y \<noteq> f x" by (auto simp: image_iff)
    then have "filter (\<lambda>y. f y = f x) xs = []" by (simp add: filter_empty_conv)
    with True show ?thesis by simp
  next
    case False
    with Cons show ?thesis by auto
  qed
qed

lemma inv_accept_abs:
  assumes inv: "offer_inv rs offers"
    and fo: "find (\<lambda>ofr. Offer_ID ofr = oid) offers = Some offer"
    and rid: "Offer_RideID offer = x"
    and fr: "find (\<lambda>r. Ride_ID r = x) rs = Some ride"
    and st: "Ride_Status ride = RideStatusMatching"
    and g: "\<And>ofr. Offer_ID (g ofr) = Offer_ID ofr \<and> Offer_RideID (g ofr) = Offer_RideID ofr
              \<and> Offer_Status (g ofr)
                  = (if Offer_ID ofr = oid then OfferStatusAccepted else Offer_Status ofr)"
    and f: "\<And>r. Ride_ID (f r) = Ride_ID r
              \<and> (Ride_ID r = x \<longrightarrow> Ride_DriverID (f r) \<noteq> None
                     \<and> Ride_Status (f r) = RideStatusDriverAssigned)
              \<and> (Ride_ID r \<noteq> x \<longrightarrow> f r = r)"
  shows "offer_inv (map f rs) (map g offers)"
proof -
  from inv have dO: "distinct (map Offer_ID offers)" and dR: "distinct (map Ride_ID rs)"
    and iA: "\<And>ofr. ofr \<in> set offers \<Longrightarrow> Offer_Status ofr = OfferStatusAccepted \<Longrightarrow>
               \<exists>r \<in> set rs. Ride_ID r = Offer_RideID ofr \<and> Ride_DriverID r \<noteq> None"
    and iR: "\<And>r. r \<in> set rs \<Longrightarrow> Ride_DriverID r \<noteq> None \<Longrightarrow>
               length (accepted_in offers (Ride_ID r)) = 1
               \<and> Ride_Status r \<noteq> RideStatusPending \<and> Ride_Status r \<noteq> RideStatusMatching"
    unfolding offer_inv_def by blast+
  from find_Some_set[OF fo] have o: "Offer_ID offer = oid" "offer \<in> set offers" by auto
  from find_Some_set[OF fr] have r: "Ride_ID ride = x" "ride \<in> set rs" by auto
  have uniqO: "ofr = offer" if "ofr \<in> set offers" "Offer_ID ofr = oid" for ofr
    using distinct_key_unique[OF dO that(1) o(2)] that(2) o(1) by simp
  have uniqR: "r' = ride" if "r' \<in> set rs" "Ride_ID r' = x" for r'
    using distinct_key_unique[OF dR that(1) r(2)] that(2) r(1) by simp
  have zero: "Offer_Status ofr \<noteq> OfferStatusAccepted"
    if "ofr \<in> set offers" "Offer_RideID ofr = x" for ofr
  proof
    assume "Offer_Status ofr = OfferStatusAccepted"
    from iA[OF that(1) this] that(2) obtain r' where
      r': "r' \<in> set rs" "Ride_ID r' = x" "Ride_DriverID r' \<noteq> None" by auto
    with uniqR have "r' = ride" by simp
    with iR[OF r'(1) r'(3)] st show False by simp
  qed
  have idsO: "map Offer_ID (map g offers) = map Offer_ID offers" using g by simp
  have idsR: "map Ride_ID (map f rs) = map Ride_ID rs" using f by simp
  have lenX: "length (accepted_in (map g offers) x) = 1"
  proof -
    have "((\<lambda>ofr. Offer_RideID ofr = x \<and> Offer_Status ofr = OfferStatusAccepted) \<circ> g) ofr
            = (Offer_ID ofr = Offer_ID offer)" if "ofr \<in> set offers" for ofr
    proof (cases "Offer_ID ofr = oid")
      case True
      with uniqO[OF that] have "ofr = offer" by simp
      then show ?thesis using g[of ofr] rid o(1) by simp
    next
      case False
      then show ?thesis using g[of ofr] zero[OF that] o(1) by auto
    qed
    then have "filter ((\<lambda>ofr. Offer_RideID ofr = x \<and> Offer_Status ofr = OfferStatusAccepted) \<circ> g)
            offers
          = filter (\<lambda>ofr. Offer_ID ofr = Offer_ID offer) offers"
      by (intro filter_cong refl) blast
    then show ?thesis
      using distinct_filter_key_length[OF dO o(2)]
      by (simp add: accepted_in_def filter_map)
  qed
  have lenY: "length (accepted_in (map g offers) y) = length (accepted_in offers y)"
    if "y \<noteq> x" for y
  proof -
    have "((\<lambda>ofr. Offer_RideID ofr = y \<and> Offer_Status ofr = OfferStatusAccepted) \<circ> g) ofr
            = (Offer_RideID ofr = y \<and> Offer_Status ofr = OfferStatusAccepted)"
      if m: "ofr \<in> set offers" for ofr
    proof (cases "Offer_ID ofr = oid")
      case True
      with uniqO[OF m] have "ofr = offer" by simp
      then show ?thesis using g[of ofr] rid \<open>y \<noteq> x\<close> by auto
    next
      case False
      then show ?thesis using g[of ofr] by simp
    qed
    then have "filter ((\<lambda>ofr. Offer_RideID ofr = y \<and> Offer_Status ofr = OfferStatusAccepted) \<circ> g)
            offers
          = filter (\<lambda>ofr. Offer_RideID ofr = y \<and> Offer_Status ofr = OfferStatusAccepted) offers"
      by (intro filter_cong refl) blast
    then show ?thesis by (simp add: accepted_in_def filter_map)
  qed
  have a: "\<exists>r \<in> set (map f rs). Ride_ID r = Offer_RideID ofr' \<and> Ride_DriverID r \<noteq> None"
    if "ofr' \<in> set (map g offers)" "Offer_Status ofr' = OfferStatusAccepted" for ofr'
  proof -
    from that obtain ofr where ofr: "ofr \<in> set offers" "ofr' = g ofr" by auto
    show ?thesis
    proof (cases "Offer_ID ofr = oid")
      case True
      with uniqO[OF ofr(1)] have "ofr = offer" by simp
      then have "Offer_RideID ofr' = x" using rid g[of ofr] ofr(2) by simp
      moreover have "f ride \<in> set (map f rs)" using r(2) by simp
      moreover have "Ride_ID (f ride) = x" "Ride_DriverID (f ride) \<noteq> None"
        using f[of ride] r(1) by auto
      ultimately show ?thesis by blast
    next
      case False
      with ofr that g[of ofr] have acc: "Offer_Status ofr = OfferStatusAccepted" by simp
      from iA[OF ofr(1) acc] obtain r' where
        r': "r' \<in> set rs" "Ride_ID r' = Offer_RideID ofr" "Ride_DriverID r' \<noteq> None" by auto
      have "f r' \<in> set (map f rs)" using r'(1) by simp
      moreover have "Ride_ID (f r') = Offer_RideID ofr'"
        using f[of r'] r'(2) g[of ofr] ofr(2) by simp
      moreover have "Ride_DriverID (f r') \<noteq> None"
        using f[of r'] r'(3) by (cases "Ride_ID r' = x") auto
      ultimately show ?thesis by blast
    qed
  qed
  have b: "length (accepted_in (map g offers) (Ride_ID r')) = 1
           \<and> Ride_Status r' \<noteq> RideStatusPending \<and> Ride_Status r' \<noteq> RideStatusMatching"
    if "r' \<in> set (map f rs)" "Ride_DriverID r' \<noteq> None" for r'
  proof -
    from that obtain r0 where r0: "r0 \<in> set rs" "r' = f r0" by auto
    show ?thesis
    proof (cases "Ride_ID r0 = x")
      case True
      then have "Ride_ID r' = x" "Ride_Status r' = RideStatusDriverAssigned"
        using f[of r0] r0(2) by auto
      then show ?thesis using lenX by (simp add: status_defs)
    next
      case False
      with r0 f[of r0] have e: "r' = r0" by simp
      with that have "Ride_DriverID r0 \<noteq> None" by simp
      from iR[OF r0(1) this] lenY[OF False] e show ?thesis by simp
    qed
  qed
  show ?thesis
    unfolding offer_inv_def idsO idsR using dO dR a b by blast
qed

lemma db_inv_same:
  "rides db' = rides db \<Longrightarrow> ride_offers db' = ride_offers db \<Longrightarrow> db_inv db' = db_inv db"
  by (simp add: db_inv_def)

lemma inv_status_update:
  assumes "offer_inv rs offers"
    and "st = RideStatusPending \<or> st = RideStatusMatching
           \<Longrightarrow> \<forall>r \<in> set rs. Ride_ID r = ident \<longrightarrow> Ride_DriverID r = None"
  shows "offer_inv (map (\<lambda>r. if Ride_ID r = ident
                             then r\<lparr>Ride_Status := st, Ride_UpdatedAt := now\<rparr> else r) rs) offers"
  using assms(1)
proof (rule inv_rides_map)
  fix r assume "r \<in> set rs"
  then show "Ride_ID (if Ride_ID r = ident then r\<lparr>Ride_Status := st, Ride_UpdatedAt := now\<rparr> else r)
               = Ride_ID r
           \<and> Ride_DriverID (if Ride_ID r = ident then r\<lparr>Ride_Status := st, Ride_UpdatedAt := now\<rparr>
                             else r) = Ride_DriverID r
           \<and> (Ride_DriverID r \<noteq> None \<longrightarrow>
                Ride_Status (if Ride_ID r = ident then r\<lparr>Ride_Status := st, Ride_UpdatedAt := now\<rparr>
                             else r) \<noteq> RideStatusPending
                \<and> Ride_Status (if Ride_ID r = ident
                                then r\<lparr>Ride_Status := st, Ride_UpdatedAt := now\<rparr> else r)
                    \<noteq> RideStatusMatching)"
    using assms(1,2) unfolding offer_inv_def by (cases "Ride_ID r = ident") auto
qed

lemma rideRepo_UpdateStatus_inv:
  assumes "db_inv db" and "rideRepo_UpdateStatus fl now db ident st = Inr db'"
    and "st = RideStatusPending \<or> st = RideStatusMatching
           \<Longrightarrow> \<forall>r \<in> set (rides db). Ride_ID r = ident \<longrightarrow> Ride_DriverID r = None"
  shows "db_inv db'"
proof -
  from assms(2) have "rides db' = map (\<lambda>r. if Ride_ID r = ident
                             then r\<lparr>Ride_Status := st, Ride_UpdatedAt := now\<rparr> else r) (rides db)"
    and "ride_offers db' = ride_offers db"
    by (auto simp: rideRepo_UpdateStatus_def split: if_splits)
  then show ?thesis
    using inv_status_update[OF assms(1)[unfolded db_inv_def], of st ident now] assms(3)
    by (simp add: db_inv_def)
qed

lemma rideRepo_Cancel_inv:
  assumes "db_inv db" and "rideRepo_Cancel fl now db ident cb reason = Inr db'"
  shows "db_inv db'"
proof -
  let ?f = "\<lambda>r. if Ride_ID r = ident
                 then r\<lparr>Ride_Status := RideStatusCancelled, Ride_CancelledBy := Some cb,
                        Ride_CancellationReason := Some reason, Ride_UpdatedAt := now\<rparr>
                 else r"
  from assms(2) have e: "rides db' = map ?f (rides db)" "ride_offers db' = ride_offers db"
    by (auto simp: rideRepo_Cancel_def split: if_splits)
  have "offer_inv (map ?f (rides db)) (ride_offers db)"
    using assms(1)[unfolded db_inv_def]
  proof (rule inv_rides_map)
    fix r assume "r \<in> set (rides db)"
    show "Ride_ID (?f r) = Ride_ID r \<and> Ride_DriverID (?f r) = Ride_DriverID r
           \<and> (Ride_DriverID r \<noteq> None \<longrightarrow> Ride_Status (?f r) \<noteq> RideStatusPending
                \<and> Ride_Status (?f r) \<noteq> RideStatusMatching)"
      using assms(1) \<open>r \<in> set (rides db)\<close> unfolding db_inv_def offer_inv_def
      by (cases "Ride_ID r = ident") (auto simp: status_defs)
  qed
  then show ?thesis using e by (simp add: db_inv_def)
qed

lemma driverRepo_UpdateStatus_inv:
  "driverRepo_UpdateStatus fl now db ident st = Inr db' \<Longrightarrow> db_inv db' = db_inv db"
  by (auto simp: driverRepo_UpdateStatus_def db_inv_def split: if_splits)

lemma driverRepo_IncrementTotalTrips_inv:
  "driverRepo_IncrementTotalTrips fl now db ident = Inr db' \<Longrightarrow> db_inv db' = db_inv db"
  by (auto simp: driverRepo_IncrementTotalTrips_def db_inv_def split: if_splits)

lemma tripRepo_Create_inv:
  "tripRepo_Create fl uuid now db trip = (trip', Inr db') \<Longrightarrow> db_inv db' = db_inv db"
  by (auto simp: tripRepo_Create_def db_inv_def Let_def split: if_splits)

lemma tripRepo_EndTrip_inv:
  "tripRepo_EndTrip fl now db trip = (trip', Inr db') \<Longrightarrow> db_inv db' = db_inv db"
  by (auto simp: tripRepo_EndTrip_def db_inv_def Let_def split: if_splits)

lemma offerRepo_Create_inv:
  assumes "db_inv db" and "offerRepo_Create fl uuid now db offer = (offer', Inr db')"
  shows "db_inv db'"
proof -
  from assms(2) have "ride_offers db' = ride_offers db @ [offer']" "rides db' = rides db"
    "Offer_ID offer' \<notin> Offer_ID ` set (ride_offers db)" "Offer_Status offer' = OfferStatusPending"
    by (auto simp: offerRepo_Create_def Let_def split: if_splits)
  then show ?thesis
    using inv_offer_append[OF assms(1)[unfolded db_inv_def]] by (simp add: db_inv_def)
qed

lemma offer_loop_inv: "db_inv db \<Longrightarrow> db_inv (offer_loop fl uuids now ride i ds db)"
proof (induction ds arbitrary: i db)
  case Nil
  then show ?case by simp
next
  case (Cons d ds)
  let ?offer = "\<lparr>Offer_ID = [], Offer_RideID = Ride_ID ride,
                   Offer_DriverID = sd_DriverID d, Offer_Status = [],
                   Offer_OfferedAt = 0, Offer_RespondedAt = None,
                   Offer_ExpiresAt = now + defaultOfferTimeout\<rparr>"
  obtain o' res where cr: "offerRepo_Create fl (uuids i) now db ?offer = (o', res)"
    by (cases "offerRepo_Create fl (uuids i) now db ?offer")
  show ?case
  proof (cases res)
    case (Inl e)
    then show ?thesis using cr Cons by (simp add: Let_def)
  next
    case (Inr db1)
    with cr offerRepo_Create_inv[OF Cons.prems] have "db_inv db1" by blast
    from Cons.IH[OF this] show ?thesis using cr Inr by (simp add: Let_def)
  qed
qed

lemma CanTransitionTo_early:
  assumes "CanTransitionTo ride st" and "st = RideStatusPending \<or> st = RideStatusMatching"
  shows "Ride_Status ride = RideStatusPending"
  using assms
  by (auto simp: CanTransitionTo_def ValidRideTransitions_def status_defs
      split: option.splits if_splits)

lemma inv_no_driver_if_pending:
  assumes "db_inv db" and "find (\<lambda>r. Ride_ID r = ident) (rides db) = Some ride"
    and "Ride_Status ride = RideStatusPending"
  shows "\<forall>r \<in> set (rides db). Ride_ID r = ident \<longrightarrow> Ride_DriverID r = None"
proof (intro ballI impI)
  fix r assume r: "r \<in> set (rides db)" "Ride_ID r = ident"
  from find_Some_set[OF assms(2)] have m: "Ride_ID ride = ident" "ride \<in> set (rides db)" by auto
  from assms(1) have d: "distinct (map Ride_ID (rides db))"
    unfolding db_inv_def offer_inv_def by blast
  from distinct_key_unique[OF d r(1) m(2)] r(2) m(1) have "r = ride" by simp
  with assms(1,3) m(2) show "Ride_DriverID r = None"
    unfolding db_inv_def offer_inv_def by blast
qed

lemma UpdateRideStatus_inv:
  assumes "db_inv db" and "UpdateRideStatus fl now db ident st = (db', e)"
  shows "db_inv db'"
proof (cases "db' = db")
  case True
  with assms show ?thesis by simp
next
  case False
  with assms(2) obtain ride where
    f: "find (\<lambda>r. Ride_ID r = ident) (rides db) = Some ride" and c: "CanTransitionTo ride st"
    and u: "rideRepo_UpdateStatus fl now db ident st = Inr db'"
    unfolding UpdateRideStatus_def rideRepo_GetByID_def
    by (auto split: sum.splits option.splits if_splits)
  show ?thesis
    using rideRepo_UpdateStatus_inv[OF assms(1) u]
      inv_no_driver_if_pending[OF assms(1) f CanTransitionTo_early[OF c]] by blast
qed

lemma CancelRide_inv:
  assumes "db_inv db" and "CancelRide fl now db ident creq = (db', e)"
  shows "db_inv db'"
proof (cases "db' = db")
  case True
  with assms show ?thesis by simp
next
  case False
  with assms(2) obtain db1 where
    c: "rideRepo_Cancel fl now db ident (Cancel_CancelledBy creq) (Cancel_Reason creq) = Inr db1"
    and d: "db' = db1 \<or> (\<exists>drv. driverRepo_UpdateStatus fl now db1 drv DriverStatusOnline = Inr db')"
    unfolding CancelRide_def
    by (auto split: sum.splits option.splits if_splits)
  from rideRepo_Cancel_inv[OF assms(1) c] have "db_inv db1" .
  with d show ?thesis using driverRepo_UpdateStatus_inv by blast
qed

lemma CreateRide_inv:
  assumes "db_inv db" and "CreateRide fl uuid now db c req k = (db', res)"
  shows "db_inv db'"
proof (cases "db' = db")
  case True
  with assms show ?thesis by simp
next
  case False
  with assms(2) obtain rd ride' db1 where
    cr: "rideRepo_Create fl uuid now db rd = (ride', Inr db1)"
    and nd: "Ride_DriverID rd = None"
    and d: "db' = (case rideRepo_UpdateStatus fl now db1 (Ride_ID ride') RideStatusMatching of
                     Inl e \<Rightarrow> db1 | Inr d \<Rightarrow> d)"
    unfolding CreateRide_def Let_def
    by (auto split: sum.splits option.splits if_splits prod.splits simp: new_ride_def)
  from rideRepo_Create_row[OF cr] have row: "rides db1 = rides db @ [ride']"
    "Ride_ID ride' \<notin> Ride_ID ` set (rides db)" "Ride_DriverID ride' = None"
    "ride_offers db1 = ride_offers db"
    using nd by auto
  have i1: "db_inv db1"
    using inv_ride_append[OF assms(1)[unfolded db_inv_def] row(2,3)] row(1,4)
    by (simp add: db_inv_def)
  show ?thesis
  proof (cases "rideRepo_UpdateStatus fl now db1 (Ride_ID ride') RideStatusMatching")
    case (Inl e)
    with d i1 show ?thesis by simp
  next
    case (Inr db2)
    have "\<forall>r \<in> set (rides db1). Ride_ID r = Ride_ID ride' \<longrightarrow> Ride_DriverID r = None"
      using row by (auto simp: image_iff)
    from rideRepo_UpdateStatus_inv[OF i1 Inr] this d Inr show ?thesis by simp
  qed
qed

lemma StartTrip_inv:
  assumes "db_inv db" and "StartTrip fl uuid now db rideID = (db', res)"
  shows "db_inv db'"
proof (cases "db' = db")
  case True
  with assms show ?thesis by simp
next
  case False
  with assms(2) obtain tr trip' db1 where
    cr: "tripRepo_Create fl uuid now db tr = (trip', Inr db1)"
    and d: "db' = db1 \<or> rideRepo_UpdateStatus fl now db1 rideID RideStatusInProgress = Inr db'"
    unfolding StartTrip_def Let_def
    by (auto split: sum.splits option.splits if_splits prod.splits)
  from tripRepo_Create_inv[OF cr] assms(1) have i1: "db_inv db1" by simp
  from d show ?thesis
  proof
    assume "db' = db1" with i1 show ?thesis by simp
  next
    assume u: "rideRepo_UpdateStatus fl now db1 rideID RideStatusInProgress = Inr db'"
    show ?thesis
      by (rule rideRepo_UpdateStatus_inv[OF i1 u]) (simp add: status_defs)
  qed
qed

lemma EndTrip_inv:
  assumes "db_inv db" and "EndTrip fl now db c tripID ereq = ((db', c'), res)"
  shows "db_inv db'"
proof (cases "db' = db")
  case True
  with assms show ?thesis by simp
next
  case False
  with assms(2) obtain tr trip2 db1 where
    et: "tripRepo_EndTrip fl now db tr = (trip2, Inr db1)"
    and d: "db' = (let db2 = (case rideRepo_UpdateStatus fl now db1 (Trip_RideID trip2)
                                        RideStatusCompleted of
                                   Inl e \<Rightarrow> db1 | Inr d \<Rightarrow> d);
                          db3 = (case driverRepo_UpdateStatus fl now db2 (Trip_DriverID trip2)
                                        DriverStatusOnline of
                                   Inl e \<Rightarrow> db2 | Inr d \<Rightarrow> d)
                   in (case driverRepo_IncrementTotalTrips fl now db3
                                        (Trip_DriverID trip2) of
                                   Inl e \<Rightarrow> db3 | Inr d \<Rightarrow> d))"
    unfolding EndTrip_def Let_def
    by (auto split: sum.splits option.splits if_splits prod.splits)
  from tripRepo_EndTrip_inv[OF et] assms(1) have i1: "db_inv db1" by simp
  define db2 where "db2 = (case rideRepo_UpdateStatus fl now db1 (Trip_RideID trip2)
                                        RideStatusCompleted of
                                   Inl e \<Rightarrow> db1 | Inr d \<Rightarrow> d)"
  define db3 where "db3 = (case driverRepo_UpdateStatus fl now db2 (Trip_DriverID trip2)
                                        DriverStatusOnline of
                                   Inl e \<Rightarrow> db2 | Inr d \<Rightarrow> d)"
  have i2: "db_inv db2"
  proof (cases "rideRepo_UpdateStatus fl now db1 (Trip_RideID trip2) RideStatusCompleted")
    case (Inl e)
    with i1 show ?thesis by (simp add: db2_def)
  next
    case (Inr dd)
    have "db_inv dd"
      by (rule rideRepo_UpdateStatus_inv[OF i1 Inr]) (simp add: status_defs)
    with Inr show ?thesis by (simp add: db2_def)
  qed
  have i3: "db_inv db3"
    using i2 driverRepo_UpdateStatus_inv[of fl now db2 "Trip_DriverID trip2" DriverStatusOnline]
    by (auto simp: db3_def split: sum.splits)
  have "db' = (case driverRepo_IncrementTotalTrips fl now db3 (Trip_DriverID trip2) of
                 Inl e \<Rightarrow> db3 | Inr d \<Rightarrow> d)"
    using d unfolding db2_def db3_def Let_def .
  then show ?thesis
    using i3 driverRepo_IncrementTotalTrips_inv[of fl now db3 "Trip_DriverID trip2"]
    by (auto split: sum.splits)
qed

lemma find_candidates_inv:
  assumes "db_inv db" and "find_candidates fl now db c ride = Inl (db', e)"
  shows "db_inv db'"
proof (cases "db' = db")
  case True
  with assms show ?thesis by simp
next
  case False
  with assms(2) have "rideRepo_Cancel fl now db (Ride_ID ride) ''system'' ''no drivers available''
                        = Inr db'"
    unfolding find_candidates_def
    by (auto split: sum.splits option.splits if_splits prod.splits)
  from rideRepo_Cancel_inv[OF assms(1) this] show ?thesis .
qed

lemma FindAndOfferDrivers_inv:
  assumes "db_inv db"
    and "FindAndOfferDrivers sort_Slice fl pf uuids now db c ride = (db', e)"
  shows "db_inv db'"
proof (cases "find_candidates fl now db c ride")
  case (Inl p)
  obtain db1 e1 where p: "p = (db1, e1)" by (cases p)
  with Inl assms(2) have "db' = db1" by (simp add: FindAndOfferDrivers_def)
  with find_candidates_inv[OF assms(1) Inl[unfolded p]] show ?thesis by simp
next
  case (Inr cands)
  with assms(2) have "db' = db \<or> (\<exists>ds. db' = offer_loop fl uuids now ride 0 ds db)"
    by (auto simp: FindAndOfferDrivers_def Let_def split: if_splits)
  then show ?thesis using assms(1) offer_loop_inv by auto
qed

lemma DeclineRide_inv:
  assumes "db_inv db" and "DeclineRide fl now db db driverID offerID = (db', e)"
  shows "db_inv db'"
proof (cases "db' = db")
  case True
  with assms show ?thesis by simp
next
  case False
  with assms(2) obtain offer where
    f: "find (\<lambda>ofr. Offer_ID ofr = offerID) (ride_offers db) = Some offer"
    and p: "Offer_Status offer = OfferStatusPending"
    and u: "offerRepo_UpdateStatus fl now db offerID OfferStatusDeclined = Inr db'"
    unfolding DeclineRide_def offerRepo_GetByID_def
    by (auto split: sum.splits option.splits if_splits)
  let ?g = "\<lambda>ofr. if Offer_ID ofr = offerID
                   then ofr\<lparr>Offer_Status := OfferStatusDeclined, Offer_RespondedAt := Some now\<rparr>
                   else ofr"
  from u have e: "ride_offers db' = map ?g (ride_offers db)" "rides db' = rides db"
    by (auto simp: offerRepo_UpdateStatus_def split: if_splits)
  from assms(1) have d: "distinct (map Offer_ID (ride_offers db))"
    unfolding db_inv_def offer_inv_def by blast
  from find_Some_set[OF f] have m: "Offer_ID offer = offerID" "offer \<in> set (ride_offers db)"
    by auto
  have "offer_inv (rides db) (map ?g (ride_offers db))"
    using assms(1)[unfolded db_inv_def]
  proof (rule inv_offers_map)
    fix ofr assume o: "ofr \<in> set (ride_offers db)"
    show "Offer_ID (?g ofr) = Offer_ID ofr \<and> Offer_RideID (?g ofr) = Offer_RideID ofr
            \<and> (Offer_Status (?g ofr) = OfferStatusAccepted
                 \<longleftrightarrow> Offer_Status ofr = OfferStatusAccepted)"
    proof (cases "Offer_ID ofr = offerID")
      case True
      with distinct_key_unique[OF d o m(2)] m(1) have "ofr = offer" by simp
      with p True show ?thesis by (simp add: status_defs)
    next
      case False
      then show ?thesis by simp
    qed
  qed
  with e show ?thesis by (simp add: db_inv_def)
qed

lemma accept_updates_inv:
  assumes inv: "db_inv db"
    and fo: "find (\<lambda>ofr. Offer_ID ofr = oid) (ride_offers db) = Some offer"
    and rid: "Offer_RideID offer = x"
    and fr: "find (\<lambda>r. Ride_ID r = x) (rides db) = Some ride"
    and st: "Ride_Status ride = RideStatusMatching"
  shows "db_inv (accept_updates now d oid x db)"
proof -
  let ?assign = "\<lambda>r. if Ride_ID r = x
                      then r\<lparr>Ride_DriverID := Some d, Ride_Status := RideStatusDriverAssigned,
                             Ride_UpdatedAt := now\<rparr>
                      else r"
  let ?acc = "\<lambda>ofr. if Offer_ID ofr = oid
                        then ofr\<lparr>Offer_Status := OfferStatusAccepted,
                                 Offer_RespondedAt := Some now\<rparr>
                        else ofr"
  let ?exp = "\<lambda>ofr. if Offer_RideID ofr = x \<and> Offer_Status ofr = OfferStatusPending
                      then ofr\<lparr>Offer_Status := OfferStatusExpired,
                               Offer_RespondedAt := Some now\<rparr>
                      else ofr"
  have r: "rides (accept_updates now d oid x db) = map ?assign (rides db)"
    and o: "ride_offers (accept_updates now d oid x db) = map ?exp (map ?acc (ride_offers db))"
    by (simp_all add: accept_updates_def exec_expire_pending_def exec_driver_busy_def
          exec_assign_driver_def exec_accept_offer_def)
  have 1: "offer_inv (map ?assign (rides db)) (map ?acc (ride_offers db))"
    by (rule inv_accept_abs[OF inv[unfolded db_inv_def] fo rid fr st]) simp_all
  have 2: "offer_inv (map ?assign (rides db)) (map ?exp (map ?acc (ride_offers db)))"
    by (rule inv_offers_map[OF 1]) (simp add: status_defs)
  show ?thesis unfolding db_inv_def r o by (rule 2)
qed

lemma AcceptRide_inv:
  assumes "db_inv db" and "AcceptRide fl nowE now db c driverID req = ((db', c'), res)"
  shows "db_inv db'"
proof (cases "db' = db")
  case True
  with assms show ?thesis by simp
next
  case False
  with assms(2) obtain ride where
    tx: "AcceptRide_tx fl nowE now db driverID req = Inr (db', ride)"
    unfolding AcceptRide_def Let_def
    by (auto split: sum.splits if_splits prod.splits)
  from AcceptRide_tx_Inr[OF tx] obtain offer where
    "find (\<lambda>ofr. Offer_ID ofr = Accept_OfferID req) (ride_offers db) = Some offer"
    "Offer_RideID offer = Accept_RideID req"
    "find (\<lambda>r. Ride_ID r = Accept_RideID req) (rides db) = Some ride"
    "Ride_Status ride = RideStatusMatching"
    "db' = accept_updates now driverID (Accept_OfferID req) (Accept_RideID req) db"
    by blast
  with accept_updates_inv[OF assms(1)] show ?thesis by simp
qed

lemma serial_db_inv: "serial s \<Longrightarrow> db_inv (fst s)"
proof (induction rule: serial.induct)
  case (init db c)
  then show ?case by (simp add: db_inv_def offer_inv_def accepted_in_def)
next
  case (other db c db' c')
  then show ?case using db_inv_same[of db' db] by simp
next
  case (create db c fl uuid now req k db' res)
  then show ?case using CreateRide_inv by auto
next
  case (cancel db c fl now ident creq db' e)
  then show ?case using CancelRide_inv by auto
next
  case (update_status db c fl now ident status db' e)
  then show ?case using UpdateRideStatus_inv by auto
next
  case (start_trip db c fl uuid now rideID db' tres)
  then show ?case using StartTrip_inv by auto
next
  case (end_trip db c fl now tripID ereq db' c' tres)
  then show ?case using EndTrip_inv by auto
next
  case (matching db c sort_Slice fl parseFloat uuids now ride db' e)
  then show ?case using FindAndOfferDrivers_inv by auto
next
  case (accept db c fl now1 now areq driverID db' c' res)
  then show ?case using AcceptRide_inv by auto
next
  case (decline db c fl now driverID offerID db' e)
  then show ?case using DeclineRide_inv by auto
qed

lemma find_map_key:
  assumes "\<And>y. k (g y) = k y"
  shows "find (\<lambda>y. k y = a) (map g xs) = map_option g (find (\<lambda>y. k y = a) xs)"
  using assms by (induction xs) auto

lemma find_key_exists: "a \<in> k ` set xs \<Longrightarrow> \<exists>y. find (\<lambda>y. k y = a) xs = Some y"
  by (induction xs) auto

lemma AcceptRide_post:
  assumes acc: "AcceptRide fl nowE now db c driverID req = ((db', c'), Inr ride)"
  shows "(\<exists>offer'. find (\<lambda>ofr. Offer_ID ofr = Accept_OfferID req) (ride_offers db') = Some offer'
             \<and> Offer_Status offer' = OfferStatusAccepted)
       \<and> (\<exists>r'. find (\<lambda>r. Ride_ID r = Accept_RideID req) (rides db') = Some r'
             \<and> Ride_Status r' = RideStatusDriverAssigned \<and> Ride_DriverID r' = Some driverID)
       \<and> (\<exists>d'. find (\<lambda>d. Driver_ID d = driverID) (drivers db') = Some d'
             \<and> Driver_Status d' = DriverStatusBusy)
       \<and> length (ride_offers db') = length (ride_offers db)
       \<and> (\<forall>i < length (ride_offers db).
             Offer_RideID (ride_offers db ! i) = Accept_RideID req
             \<and> Offer_Status (ride_offers db ! i) = OfferStatusPending
             \<and> Offer_ID (ride_offers db ! i) \<noteq> Accept_OfferID req
             \<longrightarrow> Offer_ID (ride_offers db' ! i) = Offer_ID (ride_offers db ! i)
                 \<and> Offer_Status (ride_offers db' ! i) = OfferStatusExpired)"
proof -
  from acc obtain ride0 where
    tx: "AcceptRide_tx fl nowE now db driverID req = Inr (db', ride0)"
    unfolding AcceptRide_def Let_def
    by (auto split: sum.splits if_splits prod.splits)
  from AcceptRide_tx_Inr[OF tx] obtain offer where
    fo: "find (\<lambda>ofr. Offer_ID ofr = Accept_OfferID req) (ride_offers db) = Some offer"
    and fr: "find (\<lambda>r. Ride_ID r = Accept_RideID req) (rides db) = Some ride0"
    and dr: "driverID \<in> Driver_ID ` set (drivers db)"
    and db': "db' = accept_updates now driverID (Accept_OfferID req) (Accept_RideID req) db"
    by blast
  let ?x = "Accept_RideID req" and ?oid = "Accept_OfferID req"
  let ?assign = "\<lambda>r. if Ride_ID r = ?x
                      then r\<lparr>Ride_DriverID := Some driverID,
                             Ride_Status := RideStatusDriverAssigned, Ride_UpdatedAt := now\<rparr>
                      else r"
  let ?acc = "\<lambda>ofr. if Offer_ID ofr = ?oid
                        then ofr\<lparr>Offer_Status := OfferStatusAccepted,
                                 Offer_RespondedAt := Some now\<rparr>
                        else ofr"
  let ?exp = "\<lambda>ofr. if Offer_RideID ofr = ?x \<and> Offer_Status ofr = OfferStatusPending
                      then ofr\<lparr>Offer_Status := OfferStatusExpired,
                               Offer_RespondedAt := Some now\<rparr>
                      else ofr"
  let ?busy = "\<lambda>d. if Driver_ID d = driverID
                    then d\<lparr>Driver_Status := DriverStatusBusy, Driver_UpdatedAt := now\<rparr>
                    else d"
  have r: "rides db' = map ?assign (rides db)"
    and o: "ride_offers db' = map (?exp \<circ> ?acc) (ride_offers db)"
    and d: "drivers db' = map ?busy (drivers db)"
    unfolding db'
    by (simp_all add: accept_updates_def exec_expire_pending_def exec_driver_busy_def
          exec_assign_driver_def exec_accept_offer_def)
  from find_Some_set[OF fo] have oid: "Offer_ID offer = ?oid" by simp
  from find_Some_set[OF fr] have rid: "Ride_ID ride0 = ?x" by simp
  have 1: "find (\<lambda>ofr. Offer_ID ofr = ?oid) (ride_offers db') = Some ((?exp \<circ> ?acc) offer)"
    unfolding o by (subst find_map_key) (simp_all add: fo)
  have "Offer_Status ((?exp \<circ> ?acc) offer) = OfferStatusAccepted"
    using oid by (simp add: status_defs)
  with 1 have A: "\<exists>offer'. find (\<lambda>ofr. Offer_ID ofr = ?oid) (ride_offers db') = Some offer'
             \<and> Offer_Status offer' = OfferStatusAccepted" by blast
  have 2: "find (\<lambda>r. Ride_ID r = ?x) (rides db') = Some (?assign ride0)"
    unfolding r by (subst find_map_key) (simp_all add: fr)
  have B: "\<exists>r'. find (\<lambda>r. Ride_ID r = ?x) (rides db') = Some r'
             \<and> Ride_Status r' = RideStatusDriverAssigned \<and> Ride_DriverID r' = Some driverID"
    using 2 rid by simp
  from find_key_exists[OF dr] obtain d0 where
    d0: "find (\<lambda>d. Driver_ID d = driverID) (drivers db) = Some d0" by blast
  have 3: "find (\<lambda>d. Driver_ID d = driverID) (drivers db') = Some (?busy d0)"
    unfolding d by (subst find_map_key) (simp_all add: d0)
  have C: "\<exists>d'. find (\<lambda>d. Driver_ID d = driverID) (drivers db') = Some d'
             \<and> Driver_Status d' = DriverStatusBusy"
    using 3 find_Some_set[OF d0] by simp
  have D: "length (ride_offers db') = length (ride_offers db)" unfolding o by simp
  have E: "\<forall>i < length (ride_offers db).
             Offer_RideID (ride_offers db ! i) = ?x
             \<and> Offer_Status (ride_offers db ! i) = OfferStatusPending
             \<and> Offer_ID (ride_offers db ! i) \<noteq> ?oid
             \<longrightarrow> Offer_ID (ride_offers db' ! i) = Offer_ID (ride_offers db ! i)
                 \<and> Offer_Status (ride_offers db' ! i) = OfferStatusExpired"
    unfolding o by simp
  from A B C D E show ?thesis by blast
qed

lemma accepted_offers_in: "accepted_offers db x = accepted_in (ride_offers db) x"
  by (simp add: accepted_offers_def accepted_in_def)

text \<open>
  In a serial run every ride that has a driver has exactly one accepted offer.
\<close>

lemma serial_single_winner:
  assumes "serial (db, c)"
  shows "\<forall>r \<in> set (rides db). Ride_DriverID r \<noteq> None \<longrightarrow>
            length (accepted_offers db (Ride_ID r)) = 1"
  using serial_db_inv[OF assms]
  unfolding db_inv_def offer_inv_def accepted_offers_in by simp

text \<open>
  A run of the services: a ride is created, three drivers are offered it, driver \<open>b\<close>
  accepts.
\<close>

lemma ex_create:
  "CreateRide no_faults ''r1'' 0 ex_db_idle ex_cache_empty ex_req []
     = (ex_db_open, Inr (ex_ride ''r1'' ''matching'' None))"
proof -
  have d: "EstimateDistance 12 77 12 77 = 0"
    by (simp add: EstimateDistance_def haversineDistance_def math_Atan2_def round_f_def
          math_Round_def)
  have n: "GetNearbyDrivers no_faults ex_cache_empty 12 77 2 ''sedan'' = ([], None)"
    by (simp add: GetNearbyDrivers_def ex_cache_empty_def)
  have f: "Total (CalculateEstimatedFare ''sedan'' 0 5 2) = 115"
    by (simp add: CalculateEstimatedFare_def calculateFare_def fareConfigs_def status_defs
          Let_def round_f_def math_Round_def)
  have s: "CalculateSurge 10 0 = 2"
    by (simp add: CalculateSurge_def)
  show ?thesis
    by (simp add: CreateRide_def repo_defs ex_defs ex_db_idle_def ex_db_open_def n d f s
          EstimateDuration_def Let_def status_defs)
qed

lemma ex_offered:
  "FindAndOfferDrivers insertionSort no_faults ex_parse ex_uuids 1000 ex_db_open
       (ex_cache_with ex_near) (ex_ride ''r1'' ''matching'' None)
     = (ex_db_offered, None)"
  apply (simp only: FindAndOfferDrivers_def ex_candidates sum.case Let_def ex_scored)
  apply (simp add: Let_def offerRepo_Create_def ex_uuids_def ex_db_offered_def
        ex_db_open_def ex_defs defaultOfferTimeout_def status_defs)
  done

lemma ex_accepted:
  "fst (fst (AcceptRide no_faults 2000 2000 ex_db_offered (ex_cache_with ex_near) ''b''
       \<lparr>Accept_RideID = ''r1'', Accept_OfferID = ''o1''\<rparr>)) = ex_db_assigned
  \<and> snd (AcceptRide no_faults 2000 2000 ex_db_offered (ex_cache_with ex_near) ''b''
       \<lparr>Accept_RideID = ''r1'', Accept_OfferID = ''o1''\<rparr>)
     = Inr ((ex_ride ''r1'' ''driver_assigned'' (Some ''b'')))"
  by (simp add: AcceptRide_def AcceptRide_tx_def repo_defs ex_defs ex_db_offered_def
        ex_db_open_def ex_db_assigned_def IsExpired_def exec_accept_offer_def
        exec_assign_driver_def exec_driver_busy_def exec_expire_pending_def SetActiveRide_def
        Let_def status_defs Second_def)

text \<open>
  C3 (the code departs from the claim). A successful \<open>AcceptRide\<close> does leave the offer
  \<open>accepted\<close>, the ride \<open>driver_assigned\<close> with the caller as driver, the driver
  \<open>busy\<close> and the sibling offers \<open>expired\<close>; but the consequence the claim draws does
  not hold of the program, because \<open>DeclineRide\<close> can overwrite the accepted offer.
  Ride \<open>r1\<close> is created and offered to drivers \<open>b\<close>, \<open>a\<close> and \<open>c\<close>. Driver \<open>b\<close>
  sends both a decline and an accept for offer \<open>o1\<close>. The \<open>SELECT\<close> of \<open>DeclineRide\<close>
  reads the offer while it is still pending; then the transaction of \<open>AcceptRide\<close>
  commits; then the \<open>UPDATE\<close> of \<open>DeclineRide\<close> runs. Both calls succeed, and ride
  \<open>r1\<close> is left with driver \<open>b\<close> and no accepted offer at all. Had the decline
  started after the commit, it would have been refused.
\<close>

theorem DeclineRide_overwrites_accepted_offer:
  "CreateRide no_faults ''r1'' 0 ex_db_idle ex_cache_empty ex_req []
     = (ex_db_open, Inr (ex_ride ''r1'' ''matching'' None))
   \<and> FindAndOfferDrivers insertionSort no_faults ex_parse ex_uuids 1000 ex_db_open
         (ex_cache_with ex_near) (ex_ride ''r1'' ''matching'' None)
       = (ex_db_offered, None)
   \<and> map (\<lambda>ofr. (Offer_ID ofr, Offer_DriverID ofr, Offer_Status ofr)) (ride_offers ex_db_offered)
       = [(''o1'', ''b'', ''pending''), (''o2'', ''a'', ''pending''), (''o3'', ''c'', ''pending'')]
   \<and> fst (fst (AcceptRide no_faults 2000 2000 ex_db_offered (ex_cache_with ex_near) ''b''
                  \<lparr>Accept_RideID = ''r1'', Accept_OfferID = ''o1''\<rparr>)) = ex_db_assigned
   \<and> snd (AcceptRide no_faults 2000 2000 ex_db_offered (ex_cache_with ex_near) ''b''
             \<lparr>Accept_RideID = ''r1'', Accept_OfferID = ''o1''\<rparr>)
       = Inr (ex_ride ''r1'' ''driver_assigned'' (Some ''b''))
   \<and> map Offer_Status (ride_offers ex_db_assigned) = [''accepted'', ''expired'', ''expired'']
   \<and> length (accepted_offers ex_db_assigned ''r1'') = 1
   \<and> snd (DeclineRide no_faults 3000 ex_db_offered ex_db_assigned ''b'' ''o1'') = None
   \<and> map Offer_Status
         (ride_offers (fst (DeclineRide no_faults 3000 ex_db_offered ex_db_assigned ''b'' ''o1'')))
       = [''declined'', ''expired'', ''expired'']
   \<and> map (\<lambda>r. (Ride_Status r, Ride_DriverID r))
         (rides (fst (DeclineRide no_faults 3000 ex_db_offered ex_db_assigned ''b'' ''o1'')))
       = [(''driver_assigned'', Some ''b'')]
   \<and> accepted_offers (fst (DeclineRide no_faults 3000 ex_db_offered ex_db_assigned ''b'' ''o1''))
         ''r1'' = []
   \<and> DeclineRide no_faults 3000 ex_db_assigned ex_db_assigned ''b'' ''o1''
       = (ex_db_assigned, Some (ApiErr (BadRequest ''offer already responded'')))"
proof -
  have d: "DeclineRide no_faults 3000 ex_db_offered ex_db_assigned ''b'' ''o1''
             = (ex_db_assigned\<lparr>ride_offers :=
                  [(ex_offer ''o1'' ''r1'' ''b'' ''declined'' (1000 + 15 * Second))
                     \<lparr>Offer_OfferedAt := 1000, Offer_RespondedAt := Some 3000\<rparr>,
                   (ex_offer ''o2'' ''r1'' ''a'' ''expired'' (1000 + 15 * Second))
                     \<lparr>Offer_OfferedAt := 1000, Offer_RespondedAt := Some 2000\<rparr>,
                   (ex_offer ''o3'' ''r1'' ''c'' ''expired'' (1000 + 15 * Second))
                     \<lparr>Offer_OfferedAt := 1000, Offer_RespondedAt := Some 2000\<rparr>]\<rparr>,
                None)"
    by (simp add: DeclineRide_def offerRepo_GetByID_def offerRepo_UpdateStatus_def
          ex_db_offered_def ex_db_open_def ex_db_assigned_def ex_defs status_defs)
  have e: "DeclineRide no_faults 3000 ex_db_assigned ex_db_assigned ''b'' ''o1''
             = (ex_db_assigned, Some (ApiErr (BadRequest ''offer already responded'')))"
    by (simp add: DeclineRide_def offerRepo_GetByID_def ex_db_assigned_def ex_defs status_defs)
  have o: "map (\<lambda>ofr. (Offer_ID ofr, Offer_DriverID ofr, Offer_Status ofr))
             (ride_offers ex_db_offered)
           = [(''o1'', ''b'', ''pending''), (''o2'', ''a'', ''pending''), (''o3'', ''c'', ''pending'')]"
    by (simp add: ex_db_offered_def ex_db_open_def ex_defs)
  have a: "map Offer_Status (ride_offers ex_db_assigned) = [''accepted'', ''expired'', ''expired'']
           \<and> length (accepted_offers ex_db_assigned ''r1'') = 1"
    by (simp add: ex_db_assigned_def ex_defs accepted_offers_def status_defs)
  have f: "map Offer_Status
             (ride_offers (fst (DeclineRide no_faults 3000 ex_db_offered ex_db_assigned ''b'' ''o1'')))
           = [''declined'', ''expired'', ''expired'']
         \<and> map (\<lambda>r. (Ride_Status r, Ride_DriverID r))
             (rides (fst (DeclineRide no_faults 3000 ex_db_offered ex_db_assigned ''b'' ''o1'')))
           = [(''driver_assigned'', Some ''b'')]
         \<and> accepted_offers (fst (DeclineRide no_faults 3000 ex_db_offered ex_db_assigned ''b'' ''o1''))
             ''r1'' = []"
    unfolding d by (simp add: ex_db_assigned_def ex_defs accepted_offers_def status_defs)
  from ex_create ex_offered o ex_accepted a d e f show ?thesis by simp
qed

end
